theory Spec2Isabelle
  imports Complex_Main
begin

section \<open>JavaScript values as they reach the handlers\<close>

text \<open>
  Numbers are IEEE doubles in the source. They are abstracted here as exact rationals plus
  the three special values; rounding is not modelled. A \<open>char\<close> of a \<open>string\<close> stands
  for one UTF-16 code unit of a JavaScript string, so \<open>length\<close> and \<open>take\<close> count what
  \<open>String.prototype.slice\<close> counts.
\<close>

datatype jsnum = Fin rat | NaN | PosInf | NegInf

text \<open>
  A parsed JSON body. An object is its list of properties; \<open>undefined\<close> (a property that
  is absent) is \<open>None\<close> of \<open>json option\<close>.
\<close>

datatype json =
    JNull
  | JBool bool
  | JNum jsnum
  | JStr string
  | JArr "json list"
  | JObj "(string \<times> json) list"

datatype exn = TypeError | SyntaxError | UpstreamError string

text \<open>JavaScript truthiness (\<open>ToBoolean\<close>).\<close>

fun truthy :: "json option \<Rightarrow> bool" where
  "truthy None = False"
| "truthy (Some JNull) = False"
| "truthy (Some (JBool b)) = b"
| "truthy (Some (JNum n)) = (n \<noteq> Fin 0 \<and> n \<noteq> NaN)"
| "truthy (Some (JStr s)) = (s \<noteq> [])"
| "truthy (Some (JArr xs)) = True"
| "truthy (Some (JObj kvs)) = True"

text \<open>\<open>a || b\<close> on possibly undefined values.\<close>

definition js_or :: "json option \<Rightarrow> json option \<Rightarrow> json option" where
  "js_or a b = (if truthy a then a else b)"

text \<open>
  \<open>v.k\<close> for a named key \<open>k\<close> that is no built-in property of strings, numbers,
  booleans or arrays (the handlers read only such keys from request data this way):
  \<open>TypeError\<close> on \<open>null\<close> and \<open>undefined\<close>, the property of an object,
  \<open>undefined\<close> on every other value.
\<close>

fun get_prop :: "json option \<Rightarrow> string \<Rightarrow> exn + json option" where
  "get_prop None k = Inl TypeError"
| "get_prop (Some JNull) k = Inl TypeError"
| "get_prop (Some (JObj kvs)) k = Inr (map_of kvs k)"
| "get_prop (Some v) k = Inr None"

text \<open>\<open>v?.k\<close>: \<open>undefined\<close> instead of the \<open>TypeError\<close>.\<close>

definition opt_prop :: "json option \<Rightarrow> string \<Rightarrow> json option" where
  "opt_prop v k = (case get_prop v k of Inl e \<Rightarrow> None | Inr r \<Rightarrow> r)"

text \<open>\<open>v?.[0]\<close>: first element of an array, first code unit of a string, property
  \<open>"0"\<close> of an object.\<close>

fun oindex0 :: "json option \<Rightarrow> json option" where
  "oindex0 (Some (JArr xs)) = (case xs of [] \<Rightarrow> None | x # _ \<Rightarrow> Some x)"
| "oindex0 (Some (JStr s)) = (case s of [] \<Rightarrow> None | c # _ \<Rightarrow> Some (JStr [c]))"
| "oindex0 (Some (JObj kvs)) = map_of kvs ''0''"
| "oindex0 v = None"

text \<open>\<open>k in v\<close> for a named key: a \<open>TypeError\<close> unless \<open>v\<close> is an object or array.\<close>

fun js_in :: "string \<Rightarrow> json \<Rightarrow> exn + bool" where
  "js_in k (JObj kvs) = Inr (k \<in> fst ` set kvs)"
| "js_in k (JArr xs) = Inr False"
| "js_in k v = Inl TypeError"

subsection \<open>String coercion and \<open>parseFloat\<close>\<close>

fun join_strs :: "string option list \<Rightarrow> string option" where
  "join_strs [] = Some []"
| "join_strs [x] = x"
| "join_strs (x # y # ys) =
     (case x of None \<Rightarrow> None
      | Some s \<Rightarrow> (case join_strs (y # ys) of None \<Rightarrow> None | Some r \<Rightarrow> Some (s @ '','' @ r)))"

text \<open>
  \<open>ToString\<close> of a value that is neither \<open>null\<close> nor \<open>undefined\<close>, given the
  formatting of numbers \<open>nf\<close> (\<open>Number.prototype.toString\<close>). \<open>None\<close> is the
  \<open>TypeError\<close> of an object whose own \<open>toString\<close> property is not callable (no value
  of a JSON body is callable). An array is joined with commas, \<open>null\<close> elements as
  empty strings.
\<close>

fun js_string :: "(jsnum \<Rightarrow> string) \<Rightarrow> json \<Rightarrow> string option" where
  "js_string nf JNull = Some ''null''"
| "js_string nf (JBool b) = Some (if b then ''true'' else ''false'')"
| "js_string nf (JNum n) = Some (nf n)"
| "js_string nf (JStr s) = Some s"
| "js_string nf (JObj kvs) =
     (if ''toString'' \<in> fst ` set kvs then None else Some ''[object Object]'')"
| "js_string nf (JArr xs) =
     join_strs (map (\<lambda>x. if x = JNull then Some [] else js_string nf x) xs)"

text \<open>\<open>v.toString()\<close>.\<close>

definition to_string_call :: "(jsnum \<Rightarrow> string) \<Rightarrow> json option \<Rightarrow> exn + string" where
  "to_string_call nf v =
     (case v of None \<Rightarrow> Inl TypeError
      | Some JNull \<Rightarrow> Inl TypeError
      | Some w \<Rightarrow> (case js_string nf w of None \<Rightarrow> Inl TypeError | Some s \<Rightarrow> Inr s))"

text \<open>\<open>${v}\<close> inside a template literal.\<close>

definition template_str :: "(jsnum \<Rightarrow> string) \<Rightarrow> json option \<Rightarrow> exn + string" where
  "template_str nf v =
     (case v of None \<Rightarrow> Inr ''undefined''
      | Some w \<Rightarrow> (case js_string nf w of None \<Rightarrow> Inl TypeError | Some s \<Rightarrow> Inr s))"

definition is_ws :: "char \<Rightarrow> bool" where
  "is_ws c = (of_char c \<in> {9, 10, 11, 12, 13, 32, 160 :: nat})"

definition is_digit :: "char \<Rightarrow> bool" where
  "is_digit c = (48 \<le> (of_char c :: nat) \<and> (of_char c :: nat) \<le> 57)"

definition digits_val :: "string \<Rightarrow> nat" where
  "digits_val ds = foldl (\<lambda>a c. 10 * a + (of_char c - 48)) 0 ds"

text \<open>The optional exponent part of a decimal literal, as a factor.\<close>

definition exponent_factor :: "string \<Rightarrow> rat" where
  "exponent_factor r =
     (case r of [] \<Rightarrow> 1
      | c # r1 \<Rightarrow>
          if c = CHR ''e'' \<or> c = CHR ''E'' then
            (let (neg, r2) =
               (case r1 of [] \<Rightarrow> (False, [])
                | d # r3 \<Rightarrow> if d = CHR ''-'' then (True, r3)
                            else if d = CHR ''+'' then (False, r3) else (False, r1));
                 ds = takeWhile is_digit r2
             in if ds = [] then 1
                else if neg then 1 / 10 ^ digits_val ds else 10 ^ digits_val ds)
          else 1)"

text \<open>
  \<open>parseFloat\<close> on a string: leading white space is skipped, the longest prefix that is
  a decimal literal is read, and \<open>NaN\<close> is the result when there is none.
\<close>

definition parse_float :: "string \<Rightarrow> jsnum" where
  "parse_float s =
     (let s1 = dropWhile is_ws s;
          (neg, s2) =
            (case s1 of [] \<Rightarrow> (False, [])
             | c # r \<Rightarrow> if c = CHR ''-'' then (True, r)
                         else if c = CHR ''+'' then (False, r) else (False, s1))
      in if take 8 s2 = ''Infinity'' then (if neg then NegInf else PosInf)
         else
           (let ip = takeWhile is_digit s2;
                r1 = dropWhile is_digit s2;
                (fp, r2) =
                  (case r1 of [] \<Rightarrow> ([], [])
                   | c # r \<Rightarrow> if c = CHR ''.''
                               then (takeWhile is_digit r, dropWhile is_digit r)
                               else ([], r1))
            in if ip = [] \<and> fp = [] then NaN
               else
                 (let m = of_nat (digits_val ip) + of_nat (digits_val fp) / 10 ^ length fp
                  in Fin ((if neg then - 1 else 1) * m * exponent_factor r2))))"

text \<open>\<open>parseFloat(v)\<close> on a value that is not \<open>undefined\<close>: \<open>ToString\<close> first.\<close>

definition parseFloat :: "(jsnum \<Rightarrow> string) \<Rightarrow> json \<Rightarrow> exn + jsnum" where
  "parseFloat nf v =
     (case js_string nf v of None \<Rightarrow> Inl TypeError | Some s \<Rightarrow> Inr (parse_float s))"

section \<open>The persistent store\<close>

text \<open>
  The tables the handlers reach through the store client. A listing row is the list of
  its columns, so that a write which names only some columns leaves the others alone.
\<close>

record api_key_row =
  key_id :: string
  api_key :: string
  key_vendor :: string
  is_active :: bool
  last_used_at :: "string option"

record mapping_row =
  store_name :: string
  shop_url :: string
  map_vendor :: string

type_synonym row = "(string \<times> json) list"

record audit_entry =
  a_vendor :: "string option"
  a_key :: "string option"
  a_status :: nat
  a_message :: string

record db =
  api_keys :: "api_key_row list"
  store_mappings :: "mapping_row list"
  listings :: "row list"
  audit :: "audit_entry list"

text \<open>What one write to the store does: the three outcomes the callers distinguish.\<close>

datatype store_result = Stored | StoreError string | StoreThrows string

text \<open>
  What a request cannot decide by itself: the clock, the formatting of numbers, whether
  the store accepts a given row, the text of an exception, and the primary key of
  \<open>vendor_listings\<close> (the conflict target of a write that names none).
\<close>

record env =
  now :: string
  numfmt :: "jsnum \<Rightarrow> string"
  store_result :: "row \<Rightarrow> store_result"
  exn_text :: "exn \<Rightarrow> string"
  listings_pk :: "string list"

text \<open>\<open>.maybeSingle()\<close>: no row is no data and no error, several rows are an error.\<close>

fun maybe_single :: "'a list \<Rightarrow> exn + 'a option" where
  "maybe_single [] = Inr None"
| "maybe_single [x] = Inr (Some x)"
| "maybe_single (x # y # ys) = Inl (UpstreamError ''multiple rows returned'')"

text \<open>
  The query \<open>.eq('api_key', k).eq('is_active', true).maybeSingle()\<close> on
  \<open>vendor_api_keys\<close>.
\<close>

definition find_api_key :: "db \<Rightarrow> string \<Rightarrow> exn + api_key_row option" where
  "find_api_key d k = maybe_single (filter (\<lambda>r. api_key r = k \<and> is_active r) (api_keys d))"

text \<open>
  \<open>.upsert(row, { onConflict: cols })\<close>: the stored row that agrees with the new one
  on every conflict column takes the new row's columns and keeps its others; with no such
  row the new one is added. A column that is absent or \<open>null\<close> conflicts with nothing.
\<close>

definition same_key :: "string list \<Rightarrow> row \<Rightarrow> row \<Rightarrow> bool" where
  "same_key cols r r' =
     (\<forall>c \<in> set cols. map_of r c = map_of r' c \<and> map_of r c \<noteq> None \<and> map_of r c \<noteq> Some JNull)"

definition merge_row :: "row \<Rightarrow> row \<Rightarrow> row" where
  "merge_row new old = new @ filter (\<lambda>kv. fst kv \<notin> fst ` set new) old"

fun upsert_rows :: "string list \<Rightarrow> row \<Rightarrow> row list \<Rightarrow> row list" where
  "upsert_rows cols new [] = [new]"
| "upsert_rows cols new (r # rs) =
     (if same_key cols new r then merge_row new r # rs else r # upsert_rows cols new rs)"

text \<open>No two rows of a table conflict on the columns \<open>cols\<close>.\<close>

fun unique_rows :: "string list \<Rightarrow> row list \<Rightarrow> bool" where
  "unique_rows cols [] = True"
| "unique_rows cols (r # rs) = ((\<forall>r' \<in> set rs. \<not> same_key cols r r') \<and> unique_rows cols rs)"

definition listing_key :: "string list" where
  "listing_key = [''vendor_id'', ''external_id'']"

text \<open>
  Modelled from the spec: \<open>logRequest\<close>, which the edge function calls and this
  repository's sources do not define. It appends one audit entry and never fails.
\<close>

definition logRequest :: "string option \<Rightarrow> string option \<Rightarrow> nat \<Rightarrow> string \<Rightarrow> db \<Rightarrow> db" where
  "logRequest v k st msg d =
     d\<lparr>audit := audit d @ [\<lparr>a_vendor = v, a_key = k, a_status = st, a_message = msg\<rparr>]\<rparr>"

record response =
  status :: nat
  body :: json

definition jnat :: "nat \<Rightarrow> json" where
  "jnat n = JNum (Fin (of_nat n))"

definition error_body :: "string \<Rightarrow> json" where
  "error_body msg = JObj [(''error'', JStr msg)]"

text \<open>\<open>a || d\<close> with a default that is a value.\<close>

definition or_default :: "json option \<Rightarrow> json \<Rightarrow> json" where
  "or_default a d = (case a of None \<Rightarrow> d | Some v \<Rightarrow> if truthy a then v else d)"

section \<open>The edge function \<open>serve\<close> (API-key push and platform webhook)\<close>

definition bindE :: "exn + 'a \<Rightarrow> ('a \<Rightarrow> exn + 'b) \<Rightarrow> exn + 'b" where
  "bindE m f = (case m of Inl e \<Rightarrow> Inl e | Inr x \<Rightarrow> f x)"

definition field :: "string \<Rightarrow> json option \<Rightarrow> (string \<times> json) list" where
  "field k v = (case v of None \<Rightarrow> [] | Some x \<Rightarrow> [(k, x)])"

text \<open>
  \<open>imgs?.map((img) => img.src) || []\<close>. An \<open>undefined\<close> entry of the mapped array is
  written \<open>JNull\<close>, which is what it becomes when the row is serialised.
\<close>

fun img_srcs :: "json list \<Rightarrow> exn + json list" where
  "img_srcs [] = Inr []"
| "img_srcs (img # rest) =
     bindE (get_prop (Some img) ''src'') (\<lambda>src.
     bindE (img_srcs rest) (\<lambda>r.
     Inr ((case src of None \<Rightarrow> JNull | Some v \<Rightarrow> v) # r)))"

definition map_images :: "json option \<Rightarrow> exn + json" where
  "map_images imgs =
     (case imgs of None \<Rightarrow> Inr (JArr [])
      | Some JNull \<Rightarrow> Inr (JArr [])
      | Some (JArr xs) \<Rightarrow> bindE (img_srcs xs) (\<lambda>r. Inr (JArr r))
      | Some v \<Rightarrow> Inl TypeError)"

text \<open>\<open>parseFloat(raw.variants?.[0]?.price || '0')\<close>.\<close>

definition first_variant_price :: "env \<Rightarrow> json \<Rightarrow> exn + jsnum" where
  "first_variant_price e raw =
     parseFloat (numfmt e)
       (or_default (opt_prop (oindex0 (opt_prop (Some raw) ''variants'')) ''price'') (JStr ''0''))"

definition first_variant_quantity :: "json \<Rightarrow> json" where
  "first_variant_quantity raw =
     or_default (opt_prop (oindex0 (opt_prop (Some raw) ''variants'')) ''inventory_quantity'')
       (JNum (Fin 0))"

text \<open>The product object built from a platform webhook body (lines 147--161).\<close>

definition shopify_product_serve :: "env \<Rightarrow> json \<Rightarrow> exn + json" where
  "shopify_product_serve e raw =
     bindE (to_string_call (numfmt e) (opt_prop (Some raw) ''id'')) (\<lambda>ext.
     bindE (first_variant_price e raw) (\<lambda>price.
     bindE (map_images (opt_prop (Some raw) ''images'')) (\<lambda>imgs.
     Inr (JObj
       ([(''external_id'', JStr ext)] @
        field ''title'' (opt_prop (Some raw) ''title'') @
        [(''description'', or_default (opt_prop (Some raw) ''body_html'') (JStr [])),
         (''price'', JNum price),
         (''category'', or_default (opt_prop (Some raw) ''product_type'') (JStr ''Uncategorized'')),
         (''inventory_count'', first_variant_quantity raw),
         (''status'', or_default (opt_prop (Some raw) ''status'') (JStr ''active'')),
         (''images'', imgs),
         (''metadata'', JObj
            ([(''vendor'', or_default (opt_prop (Some raw) ''vendor'') (JStr ''Unknown''))] @
             field ''shopify_handle'' (opt_prop (Some raw) ''handle'')))])))))"

text \<open>\<open>'title' in rawBody && 'variants' in rawBody ? { products: [...] } : rawBody\<close>.\<close>

definition classify_serve :: "env \<Rightarrow> json \<Rightarrow> exn + json" where
  "classify_serve e raw =
     bindE (js_in ''title'' raw) (\<lambda>t.
     bindE (if t then js_in ''variants'' raw else Inr False) (\<lambda>tv.
     if tv then bindE (shopify_product_serve e raw) (\<lambda>p. Inr (JObj [(''products'', JArr [p])]))
     else Inr raw))"

text \<open>The row written for one product (lines 200--212).\<close>

definition productData :: "env \<Rightarrow> string \<Rightarrow> json \<Rightarrow> json \<Rightarrow> json \<Rightarrow> row" where
  "productData e vendor product ext ttl =
     [(''vendor_id'', JStr vendor),
      (''external_id'', ext),
      (''title'', ttl),
      (''description'', or_default (opt_prop (Some product) ''description'') JNull),
      (''price'', or_default (opt_prop (Some product) ''price'') JNull),
      (''category'', or_default (opt_prop (Some product) ''category'') JNull),
      (''inventory_count'', or_default (opt_prop (Some product) ''inventory_count'') (JNum (Fin 0))),
      (''status'', or_default (opt_prop (Some product) ''status'') (JStr ''active'')),
      (''images'', or_default (opt_prop (Some product) ''images'') (JArr [])),
      (''metadata'', or_default (opt_prop (Some product) ''metadata'') (JObj [])),
      (''synced_at'', JStr (now e))]"

record loop_state =
  processed :: "row list"
  errors :: "string list"
  table :: "row list"

datatype item_outcome = Rejected string | Synced row "row list"

text \<open>The body of the \<open>try\<close> inside the loop (lines 195--228), on the current table.\<close>

definition try_product :: "env \<Rightarrow> string \<Rightarrow> json \<Rightarrow> row list \<Rightarrow> exn + item_outcome" where
  "try_product e vendor product tbl =
     bindE (get_prop (Some product) ''external_id'') (\<lambda>ext.
     if \<not> truthy ext then
       Inr (Rejected ''Product missing required fields: external_id and title are required'')
     else
     bindE (get_prop (Some product) ''title'') (\<lambda>ttl.
     if \<not> truthy ttl then
       Inr (Rejected ''Product missing required fields: external_id and title are required'')
     else
       (case (ext, ttl) of
          (Some x, Some t) \<Rightarrow>
            (let pd = productData e vendor product x t in
             case store_result e pd of
               StoreThrows m \<Rightarrow> Inl (UpstreamError m)
             | StoreError m \<Rightarrow>
                 bindE (template_str (numfmt e) ext) (\<lambda>xs.
                 Inr (Rejected (''Failed to sync product '' @ xs @ '': '' @ m)))
             | Stored \<Rightarrow>
                 (let tbl' = upsert_rows listing_key pd tbl in
                  Inr (Synced (merge_row pd (case find (same_key listing_key pd) tbl of
                                               None \<Rightarrow> [] | Some old \<Rightarrow> old)) tbl')))
        | _ \<Rightarrow> Inl TypeError)))"

text \<open>
  One iteration with its \<open>catch\<close> (lines 229--231): the handler formats
  \<open>product.external_id\<close> again, so it throws itself when that read throws.
\<close>

definition process_product :: "env \<Rightarrow> string \<Rightarrow> json \<Rightarrow> loop_state \<Rightarrow> exn + loop_state" where
  "process_product e vendor product st =
     (case try_product e vendor product (table st) of
        Inr (Rejected msg) \<Rightarrow> Inr (st\<lparr>errors := errors st @ [msg]\<rparr>)
      | Inr (Synced r tbl') \<Rightarrow> Inr (st\<lparr>processed := processed st @ [r], table := tbl'\<rparr>)
      | Inl ex \<Rightarrow>
          bindE (get_prop (Some product) ''external_id'') (\<lambda>ext.
          bindE (template_str (numfmt e) ext) (\<lambda>xs.
          Inr (st\<lparr>errors := errors st @
                  [''Error processing product '' @ xs @ '': '' @ exn_text e ex]\<rparr>))))"

text \<open>
  The \<open>for\<close> loop. An exception that leaves an iteration ends the loop; the writes made
  so far stay in the store.
\<close>

fun process_products :: "env \<Rightarrow> string \<Rightarrow> json list \<Rightarrow> loop_state \<Rightarrow> exn option \<times> loop_state" where
  "process_products e vendor [] st = (None, st)"
| "process_products e vendor (p # ps) st =
     (case process_product e vendor p st of
        Inl ex \<Rightarrow> (Some ex, st)
      | Inr st' \<Rightarrow> process_products e vendor ps st')"

record request =
  req_method :: string
  auth_header :: "string option"
  req_body :: "json option"

definition starts_with :: "string \<Rightarrow> string \<Rightarrow> bool" where
  "starts_with p s = (take (length p) s = p)"

definition touch_key :: "env \<Rightarrow> string \<Rightarrow> db \<Rightarrow> db" where
  "touch_key e kid d =
     d\<lparr>api_keys := map (\<lambda>r. if key_id r = kid then r\<lparr>last_used_at := Some (now e)\<rparr> else r)
                      (api_keys d)\<rparr>"

definition success_body :: "loop_state \<Rightarrow> json" where
  "success_body st =
     JObj ([(''success'', JBool True),
            (''message'', JStr ''Products received and indexed''),
            (''processed_count'', jnat (length (processed st))),
            (''error_count'', jnat (length (errors st)))] @
           (if length (errors st) > 0 then [(''errors'', JArr (map JStr (errors st)))] else []))"

definition response_message :: "env \<Rightarrow> loop_state \<Rightarrow> string" where
  "response_message e st =
     ''Successfully synced '' @ numfmt e (Fin (of_nat (length (processed st)))) @ '' products'' @
     (if length (errors st) > 0
      then '' with '' @ numfmt e (Fin (of_nat (length (errors st)))) @ '' errors'' else [])"

definition reply :: "nat \<Rightarrow> json \<Rightarrow> response" where
  "reply st b = \<lparr>status = st, body = b\<rparr>"

text \<open>
  The \<open>try\<close> block of the edge function (lines 99--252): the response or the exception
  that leaves it, with the store as it is at that moment.
\<close>

definition serve_try :: "env \<Rightarrow> request \<Rightarrow> db \<Rightarrow> (exn + response) \<times> db" where
  "serve_try e req d =
     (case auth_header req of
        None \<Rightarrow>
          (Inr (reply 401 (error_body ''Missing or invalid Authorization header'')),
           logRequest None None 401 ''Missing or invalid Authorization header'' d)
      | Some h \<Rightarrow>
          if \<not> starts_with ''Bearer '' h then
            (Inr (reply 401 (error_body ''Missing or invalid Authorization header'')),
             logRequest None None 401 ''Missing or invalid Authorization header'' d)
          else
            (case find_api_key d (drop 7 h) of
               Inr (Some keyData) \<Rightarrow>
                 (let d1 = touch_key e (key_id keyData) d;
                      v = key_vendor keyData;
                      k = key_id keyData
                  in case req_body req of
                       None \<Rightarrow> (Inl SyntaxError, d1)
                     | Some rawBody \<Rightarrow>
                         (case classify_serve e rawBody of
                            Inl ex \<Rightarrow> (Inl ex, d1)
                          | Inr requestBody \<Rightarrow>
                              (case get_prop (Some requestBody) ''products'' of
                                 Inl ex \<Rightarrow> (Inl ex, d1)
                               | Inr (Some (JArr items)) \<Rightarrow>
                                   if items = [] then
                                     (Inr (reply 400 (error_body ''Empty products array'')),
                                      logRequest (Some v) (Some k) 400 ''Empty products array'' d1)
                                   else
                                     (case process_products e v items
                                             \<lparr>processed = [], errors = [], table = listings d1\<rparr> of
                                        (Some ex, st) \<Rightarrow> (Inl ex, d1\<lparr>listings := table st\<rparr>)
                                      | (None, st) \<Rightarrow>
                                          (Inr (reply 200 (success_body st)),
                                           logRequest (Some v) (Some k) 200 (response_message e st)
                                             (d1\<lparr>listings := table st\<rparr>)))
                               | Inr other \<Rightarrow>
                                   (Inr (reply 400
                                      (error_body ''Invalid request body: products array required'')),
                                    logRequest (Some v) (Some k) 400
                                      ''Invalid request body: products array required'' d1))))
             | _ \<Rightarrow>
                 (Inr (reply 401 (error_body ''Invalid API key'')),
                  logRequest None None 401 ''Invalid API key'' d)))"

definition serve :: "env \<Rightarrow> request \<Rightarrow> db \<Rightarrow> response \<times> db" where
  "serve e req d =
     (if req_method req = ''OPTIONS'' then (reply 200 JNull, d)
      else if req_method req \<noteq> ''POST'' then (reply 405 (error_body ''Method not allowed''), d)
      else
        (case serve_try e req d of
           (Inr resp, d') \<Rightarrow> (resp, d')
         | (Inl ex, d') \<Rightarrow>
             (reply 500
                (JObj [(''success'', JBool False),
                       (''error'', JStr ''Internal server error''),
                       (''message'',
                        JStr ''An unexpected error occurred while processing your request'')]),
              logRequest None None 500 (''Internal server error: '' @ exn_text e ex) d')))"

section \<open>The store-mapping handlers (\<open>catalog-sync.ts\<close> and its variant)\<close>

text \<open>
  A function event. \<open>ev_json\<close> is the result of \<open>JSON.parse(event.body || '{}')\<close>,
  \<open>None\<close> when the parse throws; the handlers parse the same text twice.
\<close>

record event =
  httpMethod :: string
  authorization :: "string option"
  shop_domain :: "string option"
  ev_json :: "json option"

text \<open>\<open>s.replace(p, '')\<close> for a non-empty string \<open>p\<close>: the first occurrence goes.\<close>

fun remove_first :: "string \<Rightarrow> string \<Rightarrow> string" where
  "remove_first p [] = []"
| "remove_first p (c # cs) =
     (if starts_with p (c # cs) then drop (length p) (c # cs) else c # remove_first p cs)"

definition trim :: "string \<Rightarrow> string" where
  "trim s = rev (dropWhile is_ws (rev (dropWhile is_ws s)))"

text \<open>\<open>(event.headers.authorization || '').replace('Bearer ', '').trim()\<close>.\<close>

definition bearer_token :: "event \<Rightarrow> string" where
  "bearer_token ev =
     trim (remove_first ''Bearer '' (case authorization ev of None \<Rightarrow> [] | Some a \<Rightarrow> a))"

text \<open>The queries a resolution makes, in order.\<close>

datatype lookup = KeyLookup string | MappingLookup string string

text \<open>
  \<open>.eq(column, value).maybeSingle()\<close> on \<open>shopify_store_mappings\<close>; the query
  builder formats the value into the filter.
\<close>

definition mapping_column :: "string \<Rightarrow> mapping_row \<Rightarrow> string" where
  "mapping_column c r = (if c = ''store_name'' then store_name r else shop_url r)"

definition find_mapping :: "db \<Rightarrow> string \<Rightarrow> string \<Rightarrow> exn + mapping_row option" where
  "find_mapping d c v = maybe_single (filter (\<lambda>r. mapping_column c r = v) (store_mappings d))"

datatype resolution = Vendor string | Reject response | Throws exn

text \<open>Lines 16--67 of the variant with the shop-domain fallback.\<close>

definition resolve_vendor :: "env \<Rightarrow> db \<Rightarrow> event \<Rightarrow> lookup list \<times> resolution" where
  "resolve_vendor e d ev =
     (let token = bearer_token ev in
      if token \<noteq> [] then
        ([KeyLookup token],
         case find_api_key d token of
           Inr (Some apiKeyRow) \<Rightarrow> Vendor (key_vendor apiKeyRow)
         | _ \<Rightarrow> Reject (reply 401 (error_body ''Invalid API key'')))
      else
        (case ev_json ev of
           None \<Rightarrow> ([], Throws SyntaxError)
         | Some rawBody \<Rightarrow>
             (let vendorName = opt_prop (Some rawBody) ''vendor'';
                  shopDomain = (case shop_domain ev of None \<Rightarrow> [] | Some s \<Rightarrow> s);
                  storeLookupField = js_or vendorName (Some (JStr shopDomain));
                  storeColumn = (if truthy vendorName then ''store_name'' else ''shop_url'')
              in if \<not> truthy storeLookupField then
                   ([], Reject (reply 401 (error_body ''No vendor/store identifier found'')))
                 else
                   (case template_str (numfmt e) storeLookupField of
                      Inl ex \<Rightarrow> ([], Throws ex)
                    | Inr v \<Rightarrow>
                        ([MappingLookup storeColumn v],
                         case find_mapping d storeColumn v of
                           Inr (Some mappedStore) \<Rightarrow> Vendor (map_vendor mappedStore)
                         | _ \<Rightarrow> Reject (reply 401 (error_body ''Store not mapped to vendor'')))))))"

text \<open>Lines 16--63 of \<open>catalog-sync.ts\<close>: the store name only.\<close>

definition resolve_vendor_store_name :: "env \<Rightarrow> db \<Rightarrow> event \<Rightarrow> lookup list \<times> resolution" where
  "resolve_vendor_store_name e d ev =
     (let token = bearer_token ev in
      if token \<noteq> [] then
        ([KeyLookup token],
         case find_api_key d token of
           Inr (Some apiKeyRow) \<Rightarrow> Vendor (key_vendor apiKeyRow)
         | _ \<Rightarrow> Reject (reply 401 (error_body ''Invalid API key'')))
      else
        (case ev_json ev of
           None \<Rightarrow> ([], Throws SyntaxError)
         | Some rawBody \<Rightarrow>
             (let storeName = opt_prop (Some rawBody) ''vendor''
              in if \<not> truthy storeName then
                   ([], Reject (reply 401 (error_body ''No vendor name provided in webhook'')))
                 else
                   (case template_str (numfmt e) storeName of
                      Inl ex \<Rightarrow> ([], Throws ex)
                    | Inr v \<Rightarrow>
                        ([MappingLookup ''store_name'' v],
                         case find_mapping d ''store_name'' v of
                           Inr (Some mappedStore) \<Rightarrow> Vendor (map_vendor mappedStore)
                         | _ \<Rightarrow> Reject (reply 401 (error_body ''No vendor matched for this store'')))))))"

text \<open>
  The product object built from a raw platform body (lines 67--81 of
  \<open>catalog-sync.ts\<close>). The variant reads \<open>payload.id?.toString()\<close>, which is
  \<open>optional_id\<close>.
\<close>

definition shopify_product_sync :: "bool \<Rightarrow> env \<Rightarrow> json \<Rightarrow> exn + json" where
  "shopify_product_sync optional_id e payload =
     bindE (case opt_prop (Some payload) ''id'' of
              None \<Rightarrow> if optional_id then Inr None else Inl TypeError
            | Some JNull \<Rightarrow> if optional_id then Inr None else Inl TypeError
            | Some v \<Rightarrow> bindE (to_string_call (numfmt e) (Some v)) (\<lambda>s. Inr (Some (JStr s))))
       (\<lambda>ext.
     bindE (first_variant_price e payload) (\<lambda>price.
     bindE (map_images (opt_prop (Some payload) ''images'')) (\<lambda>imgs.
     Inr (JObj
       (field ''external_id'' ext @
        field ''title'' (opt_prop (Some payload) ''title'') @
        [(''description'', or_default (opt_prop (Some payload) ''body_html'') (JStr [])),
         (''price'', JNum price),
         (''category'',
          or_default (opt_prop (Some payload) ''product_type'') (JStr ''Uncategorized'')),
         (''inventory_count'', first_variant_quantity payload),
         (''status'', JStr ''approved''),
         (''images'', imgs),
         (''metadata'', JObj
            ([(''vendor'', or_default (opt_prop (Some payload) ''vendor'') (JStr [])),
              (''handle'', or_default (opt_prop (Some payload) ''handle'') (JStr []))] @
             field ''shopify_id'' (opt_prop (Some payload) ''id'')))])))))"

text \<open>What \<open>for (const product of v)\<close> runs over.\<close>

fun iterate :: "json \<Rightarrow> exn + json list" where
  "iterate (JArr xs) = Inr xs"
| "iterate (JStr s) = Inr (map (\<lambda>c. JStr [c]) s)"
| "iterate v = Inl TypeError"

text \<open>\<open>payload.products || (payload.title ? [{...}] : [])\<close>.\<close>

definition parse_products :: "bool \<Rightarrow> env \<Rightarrow> json \<Rightarrow> exn + json" where
  "parse_products optional_id e payload =
     bindE (get_prop (Some payload) ''products'') (\<lambda>ps.
     case ps of
       Some v \<Rightarrow>
         if truthy ps then Inr v
         else if truthy (opt_prop (Some payload) ''title'')
         then bindE (shopify_product_sync optional_id e payload) (\<lambda>p. Inr (JArr [p]))
         else Inr (JArr [])
     | None \<Rightarrow>
         if truthy (opt_prop (Some payload) ''title'')
         then bindE (shopify_product_sync optional_id e payload) (\<lambda>p. Inr (JArr [p]))
         else Inr (JArr []))"

text \<open>The row written for one product (lines 88--102).\<close>

definition insertData :: "env \<Rightarrow> string \<Rightarrow> json \<Rightarrow> row" where
  "insertData e vendor product =
     [(''vendor_id'', JStr vendor)] @
     field ''external_id'' (opt_prop (Some product) ''external_id'') @
     field ''title'' (opt_prop (Some product) ''title'') @
     [(''description'', or_default (opt_prop (Some product) ''description'') (JStr [])),
      (''price'', or_default (opt_prop (Some product) ''price'') (JNum (Fin 0))),
      (''category'', or_default (opt_prop (Some product) ''category'') (JStr ''Real Estate'')),
      (''inventory_count'',
       or_default (opt_prop (Some product) ''inventory_count'') (JNum (Fin 1))),
      (''status'', JStr ''approved''),
      (''images'', or_default (opt_prop (Some product) ''images'') (JArr [])),
      (''metadata'', or_default (opt_prop (Some product) ''metadata'') (JObj [])),
      (''source'', JStr ''shopify-sync''),
      (''synced_at'', JStr (now e)),
      (''visible_on_dashboard'', JBool True)]"

text \<open>\<open>titles.push(product.title)\<close>: an \<open>undefined\<close> title is \<open>null\<close> in the response.\<close>

definition pushed_title :: "json \<Rightarrow> json" where
  "pushed_title product =
     (case opt_prop (Some product) ''title'' of None \<Rightarrow> JNull | Some t \<Rightarrow> t)"

record sync_state =
  syncedTitles :: "json list"
  sync_table :: "row list"

text \<open>
  The loop of lines 85--109. The result of the write is not read; only a write that
  throws, or a \<open>null\<close> product, ends the loop, with an exception nothing catches.
\<close>

fun sync_products :: "env \<Rightarrow> string \<Rightarrow> json list \<Rightarrow> sync_state \<Rightarrow> exn option \<times> sync_state" where
  "sync_products e vendor [] st = (None, st)"
| "sync_products e vendor (product # rest) st =
     (case get_prop (Some product) ''external_id'' of
        Inl ex \<Rightarrow> (Some ex, st)
      | Inr ext \<Rightarrow>
          (case store_result e (insertData e vendor product) of
             StoreThrows m \<Rightarrow> (Some (UpstreamError m), st)
           | StoreError m \<Rightarrow>
               sync_products e vendor rest
                 (st\<lparr>syncedTitles := syncedTitles st @
                       [pushed_title product]\<rparr>)
           | Stored \<Rightarrow>
               sync_products e vendor rest
                 \<lparr>syncedTitles = syncedTitles st @
                    [pushed_title product],
                  sync_table = upsert_rows listing_key (insertData e vendor product)
                                 (sync_table st)\<rparr>))"

definition synced_body :: "json list \<Rightarrow> json" where
  "synced_body titles =
     JObj [(''success'', JBool True), (''synced'', jnat (length titles)),
           (''titles'', JArr titles)]"

text \<open>Everything after the vendor is resolved (lines 65--114).\<close>

definition sync_payload :: "bool \<Rightarrow> env \<Rightarrow> string \<Rightarrow> event \<Rightarrow> db \<Rightarrow> (exn + response) \<times> db" where
  "sync_payload optional_id e vendor ev d =
     (case ev_json ev of
        None \<Rightarrow> (Inl SyntaxError, d)
      | Some payload \<Rightarrow>
          (case bindE (parse_products optional_id e payload) iterate of
             Inl ex \<Rightarrow> (Inl ex, d)
           | Inr products \<Rightarrow>
               (case sync_products e vendor products
                       \<lparr>syncedTitles = [], sync_table = listings d\<rparr> of
                  (Some ex, st) \<Rightarrow> (Inl ex, d\<lparr>listings := sync_table st\<rparr>)
                | (None, st) \<Rightarrow>
                    (Inr (reply 200 (synced_body (syncedTitles st))),
                     d\<lparr>listings := sync_table st\<rparr>))))"

definition sync_handler ::
  "(env \<Rightarrow> db \<Rightarrow> event \<Rightarrow> lookup list \<times> resolution) \<Rightarrow> bool \<Rightarrow>
   env \<Rightarrow> event \<Rightarrow> db \<Rightarrow> (exn + response) \<times> db" where
  "sync_handler resolver optional_id e ev d =
     (if httpMethod ev \<noteq> ''POST'' then (Inr (reply 405 (error_body ''Method Not Allowed'')), d)
      else
        (case snd (resolver e d ev) of
           Reject r \<Rightarrow> (Inr r, d)
         | Throws ex \<Rightarrow> (Inl ex, d)
         | Vendor v \<Rightarrow> sync_payload optional_id e v ev d))"

text \<open>The handler of \<open>catalog-sync.ts\<close>.\<close>

definition catalog_sync_handler :: "env \<Rightarrow> event \<Rightarrow> db \<Rightarrow> (exn + response) \<times> db" where
  "catalog_sync_handler = sync_handler resolve_vendor_store_name False"

text \<open>The handler of the variant with the shop-domain fallback.\<close>

definition shopify_sync_handler :: "env \<Rightarrow> event \<Rightarrow> db \<Rightarrow> (exn + response) \<times> db" where
  "shopify_sync_handler = sync_handler resolve_vendor True"

section \<open>The API-key handler without fallback\<close>

text \<open>The product object of lines 36--55: no default for the description, the
  platform's status kept.\<close>

definition shopify_product_fallback :: "env \<Rightarrow> json \<Rightarrow> exn + json" where
  "shopify_product_fallback e b =
     bindE (to_string_call (numfmt e) (opt_prop (Some b) ''id'')) (\<lambda>ext.
     bindE (first_variant_price e b) (\<lambda>price.
     bindE (map_images (opt_prop (Some b) ''images'')) (\<lambda>imgs.
     Inr (JObj
       ([(''external_id'', JStr ext)] @
        field ''title'' (opt_prop (Some b) ''title'') @
        field ''description'' (opt_prop (Some b) ''body_html'') @
        [(''price'', JNum price),
         (''category'', or_default (opt_prop (Some b) ''product_type'') (JStr ''Uncategorized'')),
         (''inventory_count'', first_variant_quantity b),
         (''status'', or_default (opt_prop (Some b) ''status'') (JStr ''active'')),
         (''images'', imgs),
         (''metadata'', JObj
            (field ''vendor'' (opt_prop (Some b) ''vendor'') @
             field ''handle'' (opt_prop (Some b) ''handle'')))])))))"

definition classify_fallback :: "env \<Rightarrow> json \<Rightarrow> exn + json" where
  "classify_fallback e b =
     (if truthy (Some b) \<and> truthy (opt_prop (Some b) ''title'')
         \<and> truthy (opt_prop (Some b) ''variants'')
      then bindE (shopify_product_fallback e b) (\<lambda>p. Inr (JObj [(''products'', JArr [p])]))
      else Inr b)"

definition listing_row :: "env \<Rightarrow> string \<Rightarrow> json \<Rightarrow> row" where
  "listing_row e vendor product =
     [(''vendor_id'', JStr vendor)] @
     field ''external_id'' (opt_prop (Some product) ''external_id'') @
     field ''title'' (opt_prop (Some product) ''title'') @
     field ''description'' (opt_prop (Some product) ''description'') @
     field ''price'' (opt_prop (Some product) ''price'') @
     field ''status'' (opt_prop (Some product) ''status'') @
     field ''metadata'' (opt_prop (Some product) ''metadata'') @
     [(''synced_at'', JStr (now e))]"

text \<open>The loop of lines 59--72: a title is kept only when the write reports no error.\<close>

fun insert_products :: "env \<Rightarrow> string \<Rightarrow> json list \<Rightarrow> sync_state \<Rightarrow> exn option \<times> sync_state" where
  "insert_products e vendor [] st = (None, st)"
| "insert_products e vendor (product # rest) st =
     (case get_prop (Some product) ''external_id'' of
        Inl ex \<Rightarrow> (Some ex, st)
      | Inr ext \<Rightarrow>
          (case store_result e (listing_row e vendor product) of
             StoreThrows m \<Rightarrow> (Some (UpstreamError m), st)
           | StoreError m \<Rightarrow> insert_products e vendor rest st
           | Stored \<Rightarrow>
               insert_products e vendor rest
                 \<lparr>syncedTitles = syncedTitles st @
                    [pushed_title product],
                  sync_table = upsert_rows (listings_pk e) (listing_row e vendor product)
                                 (sync_table st)\<rparr>))"

definition api_key_handler :: "env \<Rightarrow> event \<Rightarrow> db \<Rightarrow> (exn + response) \<times> db" where
  "api_key_handler e ev d =
     (if httpMethod ev \<noteq> ''POST'' then (Inr (reply 405 (error_body ''Method Not Allowed'')), d)
      else
        (case find_api_key d (bearer_token ev) of
           Inr (Some apiKeyRow) \<Rightarrow>
             (case ev_json ev of
                None \<Rightarrow> (Inl SyntaxError, d)
              | Some b \<Rightarrow>
                  (case bindE (classify_fallback e b) (\<lambda>b'.
                        bindE (get_prop (Some b') ''products'') (\<lambda>ps.
                        iterate (or_default ps (JArr [])))) of
                     Inl ex \<Rightarrow> (Inl ex, d)
                   | Inr products \<Rightarrow>
                       (case insert_products e (key_vendor apiKeyRow) products
                               \<lparr>syncedTitles = [], sync_table = listings d\<rparr> of
                          (Some ex, st) \<Rightarrow> (Inl ex, d\<lparr>listings := sync_table st\<rparr>)
                        | (None, st) \<Rightarrow>
                            (Inr (reply 200
                               (JObj [(''success'', JBool True),
                                      (''synced'', jnat (length (syncedTitles st)))])),
                             d\<lparr>listings := sync_table st\<rparr>))))
         | _ \<Rightarrow> (Inr (reply 401 (error_body ''Invalid API key'')), d)))"

section \<open>The conversational handler (\<open>whatsapp_product_sync.ts\<close>)\<close>

definition ALLOWED_STATUSES :: "string list" where
  "ALLOWED_STATUSES = [''active'', ''inactive'', ''draft'']"

text \<open>\<open>ALLOWED_STATUSES.includes(v)\<close>.\<close>

definition allowed_status :: "json option \<Rightarrow> bool" where
  "allowed_status v = (case v of Some (JStr s) \<Rightarrow> s \<in> set ALLOWED_STATUSES | _ \<Rightarrow> False)"

text \<open>
  What the call to the extraction service can do: \<open>fetch\<close> throws, the response is
  not OK (with its text), \<open>res.json()\<close> throws, or a JSON body arrives.
\<close>

datatype fetch_result = FetchThrows string | NotOk string | JsonThrows | Body json

text \<open>\<open>json.choices?.[0]?.message?.content || "{}"\<close>.\<close>

definition response_content :: "json \<Rightarrow> exn + json" where
  "response_content j =
     bindE (get_prop (Some j) ''choices'') (\<lambda>choices.
     Inr (or_default (opt_prop (opt_prop (oindex0 choices) ''message'') ''content'')
            (JStr ''{}'')))"

text \<open>The \<open>try\<close> block of \<open>aiExtractProduct\<close> (lines 149--163); \<open>parse\<close> is
  \<open>JSON.parse\<close> on a string.\<close>

definition ai_try :: "(string \<Rightarrow> json option) \<Rightarrow> env \<Rightarrow> fetch_result \<Rightarrow> exn + json" where
  "ai_try parse e res =
     (case res of
        FetchThrows m \<Rightarrow> Inl (UpstreamError m)
      | NotOk m \<Rightarrow> Inl (UpstreamError m)
      | JsonThrows \<Rightarrow> Inl SyntaxError
      | Body j \<Rightarrow>
          bindE (response_content j) (\<lambda>content.
          case js_string (numfmt e) content of
               None \<Rightarrow> Inl TypeError
             | Some text \<Rightarrow>
                 (case parse text of
                    None \<Rightarrow> Inl SyntaxError
                  | Some parsed \<Rightarrow>
                      bindE (get_prop (Some parsed) ''status'') (\<lambda>st.
                      if truthy st \<and> \<not> allowed_status st
                      then (case parsed of
                              JObj kvs \<Rightarrow> Inr (JObj (filter (\<lambda>kv. fst kv \<noteq> ''status'') kvs))
                            | _ \<Rightarrow> Inr parsed)
                      else Inr parsed))))"

text \<open>\<open>(text || "Untitled product").slice(0, 120)\<close>.\<close>

definition fallback_title :: "string \<Rightarrow> string" where
  "fallback_title text = take 120 (if text = [] then ''Untitled product'' else text)"

definition aiExtractProduct :: "(string \<Rightarrow> json option) \<Rightarrow> env \<Rightarrow> fetch_result \<Rightarrow> string \<Rightarrow> json" where
  "aiExtractProduct parse e res text =
     (case ai_try parse e res of
        Inr parsed \<Rightarrow> parsed
      | Inl ex \<Rightarrow> JObj [(''title'', JStr (fallback_title text))])"

text \<open>\<open>a ?? d\<close>.\<close>

definition nullish_default :: "json option \<Rightarrow> json \<Rightarrow> json" where
  "nullish_default a d = (case a of None \<Rightarrow> d | Some JNull \<Rightarrow> d | Some v \<Rightarrow> v)"

text \<open>The row \<open>upsertListing\<close> posts (lines 172--189), from the object it is given.\<close>

definition listing_payload :: "json \<Rightarrow> row" where
  "listing_payload data =
     field ''vendor_id'' (opt_prop (Some data) ''vendor_id'') @
     field ''external_id'' (opt_prop (Some data) ''external_id'') @
     field ''title'' (opt_prop (Some data) ''title'') @
     [(''description'', or_default (opt_prop (Some data) ''description'') JNull),
      (''price'', nullish_default (opt_prop (Some data) ''price'') JNull),
      (''currency'', or_default (opt_prop (Some data) ''currency'') JNull),
      (''category'', or_default (opt_prop (Some data) ''category'') JNull),
      (''tags'', or_default (opt_prop (Some data) ''tags'') (JArr [])),
      (''images'', or_default (opt_prop (Some data) ''images'') (JArr [])),
      (''location'', or_default (opt_prop (Some data) ''location'') JNull),
      (''source'', JStr ''whatsapp''),
      (''status'',
       (let st = opt_prop (Some data) ''status''
        in if truthy st \<and> allowed_status st then or_default st (JStr ''active'')
           else JStr ''active'')),
      (''original_link'', JNull)]"

text \<open>
  \<open>const [row] = await res.json()\<close> on the reply to an accepted write: \<open>answer\<close> is
  the body as \<open>res.json()\<close> reads it, \<open>None\<close> when it is not JSON (an empty body).
  Only arrays and strings can be destructured.
\<close>

definition first_row :: "json option \<Rightarrow> exn + json option" where
  "first_row answer =
     (case answer of
        None \<Rightarrow> Inl SyntaxError
      | Some (JArr xs) \<Rightarrow> Inr (case xs of [] \<Rightarrow> None | x # _ \<Rightarrow> Some x)
      | Some (JStr cs) \<Rightarrow> Inr (case cs of [] \<Rightarrow> None | c # _ \<Rightarrow> Some (JStr [c]))
      | Some v \<Rightarrow> Inl TypeError)"

text \<open>
  \<open>upsertListing\<close>: a POST with \<open>resolution=merge-duplicates\<close> and no conflict
  columns, so the conflict target is the table's primary key. The header given replaces
  the \<open>Prefer: return=representation\<close> of \<open>sbFetch\<close>, so the request asks for no
  representation of the row. A response that is not OK is thrown before anything is read;
  after an accepted write the row is in the table whether or not the reply can be read.
\<close>

definition upsertListing ::
  "env \<Rightarrow> json option \<Rightarrow> json \<Rightarrow> row list \<Rightarrow> (exn + json option) \<times> row list" where
  "upsertListing e answer data tbl =
     (let payload = listing_payload data in
      case store_result e payload of
        StoreThrows m \<Rightarrow> (Inl (UpstreamError m), tbl)
      | StoreError m \<Rightarrow> (Inl (UpstreamError m), tbl)
      | Stored \<Rightarrow> (first_row answer, upsert_rows (listings_pk e) payload tbl))"

text \<open>
  The inbound event of the conversational handler. \<open>wa_query\<close> is what
  \<open>new URLSearchParams(event.rawQuery || "")\<close> holds, in order; \<open>get\<close> returns the
  first value of a name.
\<close>

record wa_event =
  wa_method :: string
  wa_query :: "(string \<times> string) list"
  wa_json :: "json option"

text \<open>
  What the outside world answers during one POST: the profile found for the sender
  (\<open>None\<close> when there is none or the lookup fails), the public URL of the uploaded image
  (\<open>None\<close> when the image pipeline fails), whether three seconds have passed, the
  extraction service's answer, and the body of the store's reply to an accepted write
  (\<open>None\<close> when it is not JSON).
\<close>

record wa_world =
  profile :: "json option"
  image_url :: "string option"
  slow :: bool
  ai_response :: fetch_result
  insert_reply :: "json option"

datatype wa_message = NotLinked | Processing | Added string string

record wa_state =
  wa_listings :: "row list"
  sent :: "(json option \<times> wa_message) list"

definition text_reply :: "nat \<Rightarrow> string \<Rightarrow> response" where
  "text_reply st b = \<lparr>status = st, body = JStr b\<rparr>"

text \<open>The webhook verification (lines 205--213).\<close>

definition verify_webhook :: "string \<Rightarrow> wa_event \<Rightarrow> response" where
  "verify_webhook META_VERIFY_TOKEN ev =
     (let mode = map_of (wa_query ev) ''hub.mode'';
          token = map_of (wa_query ev) ''hub.verify_token'';
          challenge = map_of (wa_query ev) ''hub.challenge''
      in if mode = Some ''subscribe'' \<and> token = Some META_VERIFY_TOKEN
         then text_reply 200 (case challenge of None \<Rightarrow> [] | Some c \<Rightarrow> c)
         else text_reply 403 ''Forbidden'')"

text \<open>Truthiness of \<open>v.length\<close>.\<close>

fun has_length :: "json \<Rightarrow> bool" where
  "has_length (JArr xs) = (xs \<noteq> [])"
| "has_length (JStr s) = (s \<noteq> [])"
| "has_length (JObj kvs) = truthy (map_of kvs ''length'')"
| "has_length v = False"

text \<open>\<open>parts.join("\n").trim()\<close> on the truthy values collected.\<close>

fun join_lines :: "string list \<Rightarrow> string" where
  "join_lines [] = []"
| "join_lines [x] = x"
| "join_lines (x # y # ys) = x @ [CHR 0x0A] @ join_lines (y # ys)"

fun all_some :: "'a option list \<Rightarrow> 'a list option" where
  "all_some [] = Some []"
| "all_some (None # xs) = None"
| "all_some (Some x # xs) = (case all_some xs of None \<Rightarrow> None | Some r \<Rightarrow> Some (x # r))"

definition collect_text :: "env \<Rightarrow> json option \<Rightarrow> exn + string" where
  "collect_text e msg =
     (let parts = filter (\<lambda>v. truthy v)
                    [opt_prop (opt_prop msg ''text'') ''body'',
                     opt_prop (opt_prop msg ''image'') ''caption'',
                     opt_prop (opt_prop msg ''document'') ''caption'']
      in case all_some (map (\<lambda>v. case v of None \<Rightarrow> None | Some w \<Rightarrow> js_string (numfmt e) w) parts) of
           None \<Rightarrow> Inl TypeError
         | Some strs \<Rightarrow> Inr (trim (join_lines strs)))"

text \<open>\<open>Array.from(new Set(xs))\<close>: first occurrences, objects and arrays never merged.\<close>

fun is_primitive :: "json \<Rightarrow> bool" where
  "is_primitive (JArr xs) = False"
| "is_primitive (JObj kvs) = False"
| "is_primitive v = True"

fun set_order :: "json list \<Rightarrow> json list \<Rightarrow> json list" where
  "set_order seen [] = []"
| "set_order seen (x # xs) =
     (if is_primitive x \<and> x \<in> set seen then set_order seen xs
      else x # set_order (x # seen) xs)"

text \<open>\<open>(ai.title || "Untitled product").slice(0, 200)\<close>.\<close>

definition listing_title :: "json \<Rightarrow> exn + json" where
  "listing_title ai =
     (case or_default (opt_prop (Some ai) ''title'') (JStr ''Untitled product'') of
        JStr s \<Rightarrow> Inr (JStr (take 200 s))
      | JArr xs \<Rightarrow> Inr (JArr (take 200 xs))
      | _ \<Rightarrow> Inl TypeError)"

text \<open>The object handed to \<open>upsertListing\<close> (lines 291--303).\<close>

definition listing_data ::
  "json option \<Rightarrow> json option \<Rightarrow> json \<Rightarrow> json \<Rightarrow> json list \<Rightarrow> json" where
  "listing_data vendorId messageId ai title images =
     JObj
       (field ''vendor_id'' vendorId @
        field ''external_id'' (js_or (opt_prop (Some ai) ''external_id'') messageId) @
        [(''title'', title)] @
        field ''description'' (opt_prop (Some ai) ''description'') @
        field ''price'' (opt_prop (Some ai) ''price'') @
        [(''currency'', or_default (opt_prop (Some ai) ''currency'') (JStr ''NGN''))] @
        field ''category'' (opt_prop (Some ai) ''category'') @
        field ''tags'' (opt_prop (Some ai) ''tags'') @
        [(''images'', JArr images)] @
        field ''location'' (opt_prop (Some ai) ''location'') @
        [(''status'',
          (let st = opt_prop (Some ai) ''status''
           in if truthy st \<and> allowed_status st then or_default st (JStr ''active'')
              else JStr ''active''))])"

definition send :: "json option \<Rightarrow> wa_message \<Rightarrow> wa_state \<Rightarrow> wa_state" where
  "send to m s = s\<lparr>sent := sent s @ [(to, m)]\<rparr>"

text \<open>The URLs of lines 261--272: one, when the message is an image and its upload works.\<close>

definition image_urls :: "wa_world \<Rightarrow> json option \<Rightarrow> json list" where
  "image_urls w msg =
     (if opt_prop msg ''type'' = Some (JStr ''image'')
         \<and> truthy (opt_prop (opt_prop msg ''image'') ''id'')
      then (case image_url w of None \<Rightarrow> [] | Some u \<Rightarrow> [JStr u]) else [])"

text \<open>
  Lines 280--303: the extraction, the title, the images, and the object handed to
  \<open>upsertListing\<close>; \<open>input\<close> is the joined and trimmed text.
\<close>

definition wa_listing_data ::
  "(string \<Rightarrow> json option) \<Rightarrow> env \<Rightarrow> wa_world \<Rightarrow> json option \<Rightarrow> json option \<Rightarrow> string \<Rightarrow>
   exn + json" where
  "wa_listing_data parse e w msg messageId input =
     (let ai = aiExtractProduct parse e (ai_response w) input in
      bindE (listing_title ai) (\<lambda>title.
      bindE (iterate (or_default (opt_prop (Some ai) ''images'') (JArr []))) (\<lambda>imgs.
      Inr (listing_data (opt_prop (profile w) ''user_id'') messageId ai title
             (set_order [] (imgs @ image_urls w msg))))))"

text \<open>
  Lines 252--313: from the vendor's profile to the confirmation. The acknowledgement of
  a slow request is sent before the text parts are joined. The confirmation names the
  title, which is the \<open>title\<close> of the object handed to \<open>upsertListing\<close>.
\<close>

definition wa_process ::
  "(string \<Rightarrow> json option) \<Rightarrow> env \<Rightarrow> wa_world \<Rightarrow> json option \<Rightarrow> json option \<Rightarrow> json option \<Rightarrow>
   wa_state \<Rightarrow> (exn + response) \<times> wa_state" where
  "wa_process parse e w msg waId messageId s =
     (let s1 = (if slow w then send waId Processing s else s) in
      case collect_text e msg of
        Inl ex \<Rightarrow> (Inl ex, s1)
      | Inr input \<Rightarrow>
          (case wa_listing_data parse e w msg messageId input of
             Inl ex \<Rightarrow> (Inl ex, s1)
           | Inr data \<Rightarrow>
               (case upsertListing e (insert_reply w) data (wa_listings s1) of
                  (Inl ex, tbl') \<Rightarrow> (Inl ex, s1\<lparr>wa_listings := tbl'\<rparr>)
                | (Inr inserted, tbl') \<Rightarrow>
                    (let s2 = s1\<lparr>wa_listings := tbl'\<rparr>;
                         shown = (case opt_prop inserted ''id'' of
                                    None \<Rightarrow> opt_prop inserted ''external_id''
                                  | Some JNull \<Rightarrow> opt_prop inserted ''external_id''
                                  | Some v \<Rightarrow> Some v)
                     in case bindE (template_str (numfmt e) (opt_prop (Some data) ''title''))
                               (\<lambda>t. bindE (template_str (numfmt e) shown)
                               (\<lambda>i. Inr (Added t i))) of
                          Inl ex \<Rightarrow> (Inl ex, s2)
                        | Inr m \<Rightarrow> (Inr (text_reply 200 ''OK''), send waId m s2)))))"

text \<open>The POST branch up to the profile lookup (lines 218--250).\<close>

definition wa_post ::
  "(string \<Rightarrow> json option) \<Rightarrow> env \<Rightarrow> wa_world \<Rightarrow> wa_event \<Rightarrow> wa_state \<Rightarrow>
   (exn + response) \<times> wa_state" where
  "wa_post parse e w ev s =
     (case wa_json ev of
        None \<Rightarrow> (Inl SyntaxError, s)
      | Some b \<Rightarrow>
          (case get_prop (Some b) ''entry'' of
             Inl ex \<Rightarrow> (Inl ex, s)
           | Inr ent \<Rightarrow>
               (let entry = oindex0 ent;
                    changes = oindex0 (opt_prop entry ''changes'');
                    val = opt_prop changes ''value'';
                    messages = or_default (opt_prop val ''messages'') (JArr []);
                    contacts = or_default (opt_prop val ''contacts'') (JArr [])
                in if \<not> has_length messages then (Inr (text_reply 200 ''No messages''), s)
                   else
                     (let msg = oindex0 (Some messages);
                          c = opt_prop (oindex0 (Some contacts)) ''wa_id''
                      in case bindE (if truthy c then Inr c else get_prop msg ''from'') (\<lambda>waId.
                              bindE (get_prop msg ''id'') (\<lambda>messageId. Inr (waId, messageId))) of
                           Inl ex \<Rightarrow> (Inl ex, s)
                         | Inr (waId, messageId) \<Rightarrow>
                             if \<not> truthy (profile w)
                             then (Inr (text_reply 200 ''Profile not found''),
                                   send waId NotLinked s)
                             else wa_process parse e w msg waId messageId s))))"

definition wa_handler ::
  "string \<Rightarrow> (string \<Rightarrow> json option) \<Rightarrow> env \<Rightarrow> wa_world \<Rightarrow> wa_event \<Rightarrow> wa_state \<Rightarrow>
   (exn + response) \<times> wa_state" where
  "wa_handler META_VERIFY_TOKEN parse e w ev s =
     (if wa_method ev = ''GET'' then (Inr (verify_webhook META_VERIFY_TOKEN ev), s)
      else if wa_method ev \<noteq> ''POST'' then (Inr (text_reply 405 ''Method Not Allowed''), s)
      else wa_post parse e w ev s)"

section \<open>Sample inputs and the predicates of the statements\<close>

definition sample_env :: env where
  "sample_env =
     \<lparr>now = ''2025-01-01T00:00:00.000Z'', numfmt = (\<lambda>n. ''632910392''),
      store_result = (\<lambda>r. Stored), exn_text = (\<lambda>x. ''failure''),
      listings_pk = [''id'']\<rparr>"

definition handshake_event :: wa_event where
  "handshake_event =
     \<lparr>wa_method = ''GET'',
      wa_query = [(''hub.mode'', ''subscribe''), (''hub.verify_token'', ''s3cret''),
                  (''hub.challenge'', ''1158201444'')],
      wa_json = None\<rparr>"

definition handshake_without_mode :: wa_event where
  "handshake_without_mode =
     \<lparr>wa_method = ''GET'',
      wa_query = [(''hub.verify_token'', ''s3cret''), (''hub.challenge'', ''1158201444'')],
      wa_json = None\<rparr>"

definition idle_world :: wa_world where
  "idle_world =
     \<lparr>profile = None, image_url = None, slow = False, ai_response = JsonThrows,
      insert_reply = None\<rparr>"

definition sample_db :: db where
  "sample_db =
     \<lparr>api_keys = [\<lparr>key_id = ''k1'', api_key = ''sk_live_1'', key_vendor = ''V'',
                   is_active = True, last_used_at = None\<rparr>],
      store_mappings = [\<lparr>store_name = ''Acme'', shop_url = ''acme.myshopify.com'',
                         map_vendor = ''V2''\<rparr>],
      listings = [], audit = []\<rparr>"

definition sample_key :: api_key_row where
  "sample_key =
     \<lparr>key_id = ''k1'', api_key = ''sk_live_1'', key_vendor = ''V'', is_active = True,
      last_used_at = None\<rparr>"

definition push_request :: "json \<Rightarrow> request" where
  "push_request b =
     \<lparr>req_method = ''POST'', auth_header = Some ''Bearer sk_live_1'', req_body = Some b\<rparr>"

definition push_event :: "json \<Rightarrow> event" where
  "push_event b =
     \<lparr>httpMethod = ''POST'', authorization = Some ''Bearer sk_live_1'', shop_domain = None,
      ev_json = Some b\<rparr>"

text \<open>A POST to the edge function that carries the active key \<open>keyData\<close>.\<close>

definition authenticated :: "db \<Rightarrow> request \<Rightarrow> api_key_row \<Rightarrow> bool" where
  "authenticated d req keyData =
     (req_method req = ''POST'' \<and>
      (case auth_header req of
         None \<Rightarrow> False
       | Some h \<Rightarrow> starts_with ''Bearer '' h \<and> find_api_key d (drop 7 h) = Inr (Some keyData)))"

definition hat_webhook :: "string \<Rightarrow> json" where
  "hat_webhook price =
     JObj [(''id'', JNum (Fin 632910392)), (''title'', JStr ''Hat''),
           (''variants'', JArr [JObj [(''price'', JStr price),
                                      (''inventory_quantity'', JNum (Fin 3))]]),
           (''images'', JArr [JObj [(''src'', JStr ''https://cdn.example/hat.png'')]]),
           (''vendor'', JStr ''Acme''), (''handle'', JStr ''hat'')]"

text \<open>The \<open>src\<close> of an image object, as it is serialised.\<close>

definition img_src :: "(string \<times> json) list \<Rightarrow> json" where
  "img_src kvs = (case map_of kvs ''src'' of None \<Rightarrow> JNull | Some v \<Rightarrow> v)"

definition chair :: "string \<Rightarrow> json" where
  "chair note =
     JObj [(''external_id'', JStr ''p1''), (''title'', JStr ''Chair''),
           (''description'', JStr note)]"

definition used_key :: api_key_row where
  "used_key = sample_key\<lparr>last_used_at := Some ''2025-01-01T00:00:00.000Z''\<rparr>"

definition untitled_item :: json where
  "untitled_item = JObj [(''external_id'', JStr ''p0''), (''price'', JNum (Fin 5))]"

definition webhook_event :: "string option \<Rightarrow> json \<Rightarrow> event" where
  "webhook_event domain b =
     \<lparr>httpMethod = ''POST'', authorization = None, shop_domain = domain, ev_json = Some b\<rparr>"

text \<open>The outcome of a lookup by its rows: exactly one row resolves the vendor.\<close>

definition single_vendor :: "'a list \<Rightarrow> ('a \<Rightarrow> string) \<Rightarrow> string \<Rightarrow> resolution" where
  "single_vendor rows vendor_of msg =
     (case rows of [r] \<Rightarrow> Vendor (vendor_of r) | _ \<Rightarrow> Reject (reply 401 (error_body msg)))"






section \<open>Properties\<close>

subsection \<open>Lookups in rows\<close>

lemma map_of_field_app:
  "map_of (field k v @ r) k' =
     (if k = k' then (case v of None \<Rightarrow> map_of r k' | Some x \<Rightarrow> Some x) else map_of r k')"
  by (cases v) (simp_all add: field_def)

subsection \<open>The extraction adapter\<close>

lemma fallback_title_nonempty: "fallback_title input \<noteq> []"
  by (cases input) (simp_all add: fallback_title_def)

lemma fallback_title_bounded: "length (fallback_title input) \<le> 120"
  by (simp add: fallback_title_def)

text \<open>
  C7, as stated: on every failure of the extraction call the adapter returns a fragment
  whose title is a truncation of the input text, at most 120 characters long and not
  empty. For the empty text this cannot hold, and the code returns the placeholder
  \<open>Untitled product\<close>, which is no truncation of the input.
\<close>

theorem extraction_fallback_empty_text:
  "aiExtractProduct (\<lambda>t. None) sample_env (FetchThrows ''timeout'') [] =
     JObj [(''title'', JStr ''Untitled product'')]
   \<and> \<not> (\<exists>n. ''Untitled product'' = take n [])"
  by (simp add: aiExtractProduct_def ai_try_def fallback_title_def)

text \<open>
  C7, amended: when the call to the extraction service throws, answers with a response
  that is not OK, answers with a body that is not JSON, or answers with a content that
  does not parse, \<open>aiExtractProduct\<close> returns the fragment that holds only a title. The
  title is never empty and never longer than 120 characters; it is the first 120
  characters of the input text when that text is not empty, and the placeholder
  \<open>Untitled product\<close> when it is.
\<close>

theorem extraction_failure_fallback:
  "aiExtractProduct parse e (FetchThrows m) input = JObj [(''title'', JStr (fallback_title input))]
   \<and> aiExtractProduct parse e (NotOk m) input = JObj [(''title'', JStr (fallback_title input))]
   \<and> aiExtractProduct parse e JsonThrows input = JObj [(''title'', JStr (fallback_title input))]
   \<and> (response_content j = Inr c \<and> js_string (numfmt e) c = Some t \<and> parse t = None \<longrightarrow>
        aiExtractProduct parse e (Body j) input = JObj [(''title'', JStr (fallback_title input))])
   \<and> fallback_title input \<noteq> []
   \<and> length (fallback_title input) \<le> 120
   \<and> fallback_title input = (if input = [] then ''Untitled product'' else take 120 input)"
proof -
  have "fallback_title input \<noteq> []" "length (fallback_title input) \<le> 120"
    by (rule fallback_title_nonempty, rule fallback_title_bounded)
  moreover have "fallback_title input = (if input = [] then ''Untitled product'' else take 120 input)"
    by (simp add: fallback_title_def)
  ultimately show ?thesis
    by (simp add: aiExtractProduct_def ai_try_def bindE_def)
qed

theorem extraction_failure_fallback_witness:
  "response_content (JObj [(''choices'', JArr [JObj [(''message'', JObj [(''content'', JStr ''oops'')])]])])
     = Inr (JStr ''oops'')
   \<and> js_string (numfmt sample_env) (JStr ''oops'') = Some ''oops''
   \<and> aiExtractProduct (\<lambda>t. None) sample_env
        (Body (JObj [(''choices'', JArr [JObj [(''message'', JObj [(''content'', JStr ''oops'')])]])]))
        ''Red chair 5000'' = JObj [(''title'', JStr ''Red chair 5000'')]"
  using extraction_failure_fallback
    [of "\<lambda>t. None" sample_env "''m''" "''Red chair 5000''"
        "JObj [(''choices'', JArr [JObj [(''message'', JObj [(''content'', JStr ''oops'')])]])]"
        "JStr ''oops''" "''oops''"]
  by (simp add: response_content_def bindE_def opt_prop_def or_default_def fallback_title_def)

subsection \<open>The verification handshake\<close>

text \<open>
  C8, as stated: a GET whose verification token matches the configured secret is answered
  200 with the challenge. The code also requires \<open>hub.mode\<close> to be \<open>subscribe\<close>: this
  request carries the right token and is answered 403.
\<close>

theorem handshake_needs_subscribe_mode:
  "map_of (wa_query handshake_without_mode) ''hub.verify_token'' = Some ''s3cret''
   \<and> fst (wa_handler ''s3cret'' (\<lambda>t. None) sample_env idle_world handshake_without_mode
            \<lparr>wa_listings = [], sent = []\<rparr>) = Inr (text_reply 403 ''Forbidden'')"
  by (simp add: wa_handler_def verify_webhook_def handshake_without_mode_def)

text \<open>
  C8, amended: a GET is answered 200 with the challenge as body (the empty body when no
  challenge is supplied) exactly when \<open>hub.mode\<close> is \<open>subscribe\<close> and the supplied
  verification token equals the configured secret; every other GET is answered 403. The
  store and the outbound messages are not touched.
\<close>

theorem verification_handshake:
  assumes "wa_method ev = ''GET''"
  shows "wa_handler secret parse e w ev s =
     (Inr (if map_of (wa_query ev) ''hub.mode'' = Some ''subscribe''
              \<and> map_of (wa_query ev) ''hub.verify_token'' = Some secret
           then text_reply 200 (case map_of (wa_query ev) ''hub.challenge'' of
                                  None \<Rightarrow> [] | Some c \<Rightarrow> c)
           else text_reply 403 ''Forbidden''), s)"
  using assms by (simp add: wa_handler_def verify_webhook_def)

theorem verification_handshake_witness:
  "wa_method handshake_event = ''GET''
   \<and> wa_handler ''s3cret'' (\<lambda>t. None) sample_env idle_world handshake_event
        \<lparr>wa_listings = [], sent = []\<rparr>
      = (Inr (text_reply 200 ''1158201444''), \<lparr>wa_listings = [], sent = []\<rparr>)"
proof -
  have m: "wa_method handshake_event = ''GET''"
    by (simp add: handshake_event_def)
  show ?thesis
    using verification_handshake [OF m, of "''s3cret''" "\<lambda>t. None" sample_env idle_world
                                    "\<lparr>wa_listings = [], sent = []\<rparr>"] m
    by (simp add: handshake_event_def)
qed

subsection \<open>The edge function past authentication\<close>

lemma serve_authenticated:
  assumes "authenticated d req keyData" and "req_body req = Some rawBody"
  shows "serve e req d =
     (let d1 = touch_key e (key_id keyData) d; v = key_vendor keyData; k = key_id keyData in
      case (case classify_serve e rawBody of
              Inl ex \<Rightarrow> (Inl ex, d1)
            | Inr requestBody \<Rightarrow>
                (case get_prop (Some requestBody) ''products'' of
                   Inl ex \<Rightarrow> (Inl ex, d1)
                 | Inr (Some (JArr items)) \<Rightarrow>
                     if items = [] then
                       (Inr (reply 400 (error_body ''Empty products array'')),
                        logRequest (Some v) (Some k) 400 ''Empty products array'' d1)
                     else
                       (case process_products e v items
                               \<lparr>processed = [], errors = [], table = listings d1\<rparr> of
                          (Some ex, st) \<Rightarrow> (Inl ex, d1\<lparr>listings := table st\<rparr>)
                        | (None, st) \<Rightarrow>
                            (Inr (reply 200 (success_body st)),
                             logRequest (Some v) (Some k) 200 (response_message e st)
                               (d1\<lparr>listings := table st\<rparr>)))
                 | Inr other \<Rightarrow>
                     (Inr (reply 400
                        (error_body ''Invalid request body: products array required'')),
                      logRequest (Some v) (Some k) 400
                        ''Invalid request body: products array required'' d1))) of
           (Inr resp, d') \<Rightarrow> (resp, d')
         | (Inl ex, d') \<Rightarrow>
             (reply 500
                (JObj [(''success'', JBool False),
                       (''error'', JStr ''Internal server error''),
                       (''message'',
                        JStr ''An unexpected error occurred while processing your request'')]),
              logRequest None None 500 (''Internal server error: '' @ exn_text e ex) d'))"
proof -
  from assms(1) obtain h where h: "req_method req = ''POST''" "auth_header req = Some h"
    "starts_with ''Bearer '' h" "find_api_key d (drop 7 h) = Inr (Some keyData)"
    unfolding authenticated_def by (auto split: option.splits)
  show ?thesis
    unfolding serve_def serve_try_def
    by (simp add: h assms(2) Let_def)
qed

lemma classify_plain:
  "\<not> (''title'' \<in> fst ` set kvs \<and> ''variants'' \<in> fst ` set kvs) \<Longrightarrow>
   classify_serve e (JObj kvs) = Inr (JObj kvs)"
  by (auto simp add: classify_serve_def bindE_def)

lemma sample_authenticated: "authenticated sample_db (push_request b) sample_key"
  by (simp add: authenticated_def push_request_def sample_db_def sample_key_def
        starts_with_def find_api_key_def)

lemma sync_handler_resolved:
  "httpMethod ev = ''POST'' \<Longrightarrow> snd (resolver e d ev) = Vendor v \<Longrightarrow>
   sync_handler resolver oid e ev d = sync_payload oid e v ev d"
  by (simp add: sync_handler_def)

lemma parse_products_array:
  "opt_prop (Some payload) ''products'' = Some (JArr ps) \<Longrightarrow> payload \<noteq> JNull \<Longrightarrow>
   bindE (parse_products oid e payload) iterate = Inr ps"
  by (cases payload) (simp_all add: parse_products_def bindE_def opt_prop_def)

lemma sample_token: "bearer_token (push_event b) = ''sk_live_1''"
  by (simp add: bearer_token_def push_event_def starts_with_def trim_def is_ws_def)

lemma sample_resolved:
  "snd (resolve_vendor_store_name e sample_db (push_event b)) = Vendor ''V''"
  "snd (resolve_vendor e sample_db (push_event b)) = Vendor ''V''"
  by (simp_all add: resolve_vendor_store_name_def resolve_vendor_def sample_token
        find_api_key_def sample_db_def)

subsection \<open>An empty product list\<close>

text \<open>
  C3, as stated: an authenticated POST with the body \<open>{"products": []}\<close> is answered 200
  with zero items. The edge function answers it 400.
\<close>

theorem empty_products_rejected_by_serve:
  "fst (serve sample_env (push_request (JObj [(''products'', JArr [])])) sample_db)
     = reply 400 (error_body ''Empty products array'')"
  using serve_authenticated [OF sample_authenticated, of "JObj [(''products'', JArr [])]"
     "JObj [(''products'', JArr [])]" sample_env]
  by (simp add: push_request_def classify_plain)

text \<open>
  C3, amended: with the body \<open>{"products": []}\<close>, the two store-mapping handlers answer a
  request whose vendor is resolved with 200, zero synced items and no titles, and leave the
  store as it is; the edge function answers an authenticated request with 400
  \<open>Empty products array\<close> and writes no listing.
\<close>

theorem empty_products_by_handler:
  "(httpMethod ev = ''POST'' \<and> ev_json ev = Some (JObj [(''products'', JArr [])])
      \<and> snd (resolve_vendor_store_name e d ev) = Vendor v \<longrightarrow>
      catalog_sync_handler e ev d =
        (Inr (reply 200 (JObj [(''success'', JBool True), (''synced'', JNum (Fin 0)),
                               (''titles'', JArr [])])), d))
   \<and> (httpMethod ev = ''POST'' \<and> ev_json ev = Some (JObj [(''products'', JArr [])])
      \<and> snd (resolve_vendor e d ev) = Vendor v \<longrightarrow>
      shopify_sync_handler e ev d =
        (Inr (reply 200 (JObj [(''success'', JBool True), (''synced'', JNum (Fin 0)),
                               (''titles'', JArr [])])), d))
   \<and> (authenticated d req keyData \<and> req_body req = Some (JObj [(''products'', JArr [])]) \<longrightarrow>
      fst (serve e req d) = reply 400 (error_body ''Empty products array'')
      \<and> listings (snd (serve e req d)) = listings d)"
proof -
  have pp: "bindE (parse_products oid e (JObj [(''products'', JArr [])])) iterate = Inr []" for oid
    by (rule parse_products_array) (simp_all add: opt_prop_def)
  have sync: "ev_json ev = Some (JObj [(''products'', JArr [])]) \<Longrightarrow>
      sync_payload oid e v ev d =
        (Inr (reply 200 (JObj [(''success'', JBool True), (''synced'', JNum (Fin 0)),
                               (''titles'', JArr [])])), d)" for oid
    by (simp add: sync_payload_def pp synced_body_def jnat_def)
  have edge: "fst (serve e req d) = reply 400 (error_body ''Empty products array'')
      \<and> listings (snd (serve e req d)) = listings d"
    if a: "authenticated d req keyData" and b: "req_body req = Some (JObj [(''products'', JArr [])])"
    unfolding serve_authenticated [OF a b]
    by (simp add: classify_plain Let_def logRequest_def touch_key_def)
  show ?thesis
    using sync edge
    by (simp add: catalog_sync_handler_def shopify_sync_handler_def sync_handler_resolved)
qed

theorem empty_products_by_handler_witness:
  "httpMethod (push_event (JObj [(''products'', JArr [])])) = ''POST''
   \<and> snd (resolve_vendor_store_name sample_env sample_db
            (push_event (JObj [(''products'', JArr [])]))) = Vendor ''V''
   \<and> catalog_sync_handler sample_env (push_event (JObj [(''products'', JArr [])])) sample_db =
        (Inr (reply 200 (JObj [(''success'', JBool True), (''synced'', JNum (Fin 0)),
                               (''titles'', JArr [])])), sample_db)
   \<and> shopify_sync_handler sample_env (push_event (JObj [(''products'', JArr [])])) sample_db =
        (Inr (reply 200 (JObj [(''success'', JBool True), (''synced'', JNum (Fin 0)),
                               (''titles'', JArr [])])), sample_db)
   \<and> authenticated sample_db (push_request (JObj [(''products'', JArr [])])) sample_key
   \<and> fst (serve sample_env (push_request (JObj [(''products'', JArr [])])) sample_db)
        = reply 400 (error_body ''Empty products array'')"
  using empty_products_by_handler
    [of "push_event (JObj [(''products'', JArr [])])" sample_env sample_db "''V''"
        "push_request (JObj [(''products'', JArr [])])" sample_key]
    sample_resolved [of sample_env "JObj [(''products'', JArr [])]"]
    sample_authenticated [of "JObj [(''products'', JArr [])]"]
  by (simp add: push_event_def push_request_def)

subsection \<open>A product list that is missing or no array\<close>



subsection \<open>The store-mapping handlers count every element\<close>




subsection \<open>Upserts keep one row per key\<close>

lemma same_key_sym: "same_key cols r r' \<Longrightarrow> same_key cols r' r"
  unfolding same_key_def by metis

lemma same_key_trans: "same_key cols a b \<Longrightarrow> same_key cols b c \<Longrightarrow> same_key cols a c"
  unfolding same_key_def by metis

lemma map_of_merge_row:
  "map_of (merge_row new old) c = (case map_of new c of Some v \<Rightarrow> Some v | None \<Rightarrow> map_of old c)"
proof -
  have "map_of (filter (\<lambda>kv. fst kv \<notin> fst ` set new) old) c = map_of old c" if "map_of new c = None"
    using that by (induction old) (auto simp add: map_of_eq_None_iff)
  then show ?thesis
    by (auto simp add: merge_row_def map_add_def split: option.split)
qed

lemma same_key_merge_left:
  "same_key cols new old \<Longrightarrow> same_key cols (merge_row new old) r = same_key cols new r"
  by (auto simp add: same_key_def map_of_merge_row split: option.split)

lemma same_key_merge_right:
  "same_key cols new old \<Longrightarrow> same_key cols r (merge_row new old) = same_key cols r new"
  by (auto simp add: same_key_def map_of_merge_row split: option.split)

lemma upsert_rows_members:
  "r' \<in> set (upsert_rows cols new rs) \<Longrightarrow>
   r' \<in> set rs \<or> r' = new \<or> (\<exists>x \<in> set rs. same_key cols new x \<and> r' = merge_row new x)"
  by (induction rs) (auto split: if_splits)

lemma unique_rows_upsert:
  "unique_rows cols tbl \<Longrightarrow> unique_rows cols (upsert_rows cols new tbl)"
proof (induction tbl)
  case Nil
  then show ?case by simp
next
  case (Cons r rs)
  show ?case
  proof (cases "same_key cols new r")
    case True
    have "\<not> same_key cols (merge_row new r) r'" if "r' \<in> set rs" for r'
    proof
      assume "same_key cols (merge_row new r) r'"
      then have "same_key cols new r'" using same_key_merge_left [OF True] by simp
      then have "same_key cols r r'" using True same_key_sym same_key_trans by blast
      with Cons.prems that show False by simp
    qed
    with True Cons.prems show ?thesis by simp
  next
    case False
    have "\<not> same_key cols r r'" if "r' \<in> set (upsert_rows cols new rs)" for r'
    proof
      assume k: "same_key cols r r'"
      from upsert_rows_members [OF that]
      consider "r' \<in> set rs" | "r' = new" | x where "x \<in> set rs" "same_key cols new x" "r' = merge_row new x"
        by blast
      then show False
      proof cases
        case 1 with Cons.prems k show False by simp
      next
        case 2 with k False same_key_sym show False by blast
      next
        case 3
        then have "same_key cols r new" using k same_key_merge_right by simp
        with False same_key_sym show False by blast
      qed
    qed
    with False Cons.prems Cons.IH show ?thesis by simp
  qed
qed

lemma unique_rows_filter:
  "unique_rows cols tbl \<Longrightarrow> length (filter (same_key cols k) tbl) \<le> 1"
proof (induction tbl)
  case Nil
  then show ?case by simp
next
  case (Cons r rs)
  show ?case
  proof (cases "same_key cols k r")
    case True
    have "\<not> same_key cols k r'" if "r' \<in> set rs" for r'
    proof
      assume "same_key cols k r'"
      then have "same_key cols r r'" using True same_key_sym same_key_trans by blast
      with Cons.prems that show False by simp
    qed
    then have "filter (same_key cols k) rs = []" by (simp add: filter_empty_conv)
    with True show ?thesis by simp
  next
    case False
    with Cons show ?thesis by simp
  qed
qed

lemma upsert_rows_has_key:
  assumes "same_key cols new new"
  shows "\<exists>r \<in> set (upsert_rows cols new tbl). same_key cols new r
           \<and> (\<forall>c. map_of new c \<noteq> None \<longrightarrow> map_of r c = map_of new c)"
proof (induction tbl)
  case Nil
  with assms show ?case by simp
next
  case (Cons r rs)
  show ?case
  proof (cases "same_key cols new r")
    case True
    have "same_key cols new (merge_row new r)"
      using same_key_merge_right [OF True, of new] assms by simp
    moreover have "\<forall>c. map_of new c \<noteq> None \<longrightarrow> map_of (merge_row new r) c = map_of new c"
      by (auto simp add: map_of_merge_row)
    ultimately show ?thesis using True by simp
  next
    case False
    with Cons show ?thesis by auto
  qed
qed

lemma upsert_rows_exactly_one:
  assumes "unique_rows cols tbl" and "same_key cols new new"
  shows "\<exists>r. filter (same_key cols new) (upsert_rows cols new tbl) = [r]
           \<and> (\<forall>c. map_of new c \<noteq> None \<longrightarrow> map_of r c = map_of new c)"
proof -
  let ?t = "upsert_rows cols new tbl"
  from upsert_rows_has_key [OF assms(2), of tbl]
  obtain r where r: "r \<in> set ?t" "same_key cols new r"
    "\<forall>c. map_of new c \<noteq> None \<longrightarrow> map_of r c = map_of new c" by blast
  then have "r \<in> set (filter (same_key cols new) ?t)" by simp
  moreover have "length (filter (same_key cols new) ?t) \<le> 1"
    by (rule unique_rows_filter [OF unique_rows_upsert [OF assms(1)]])
  ultimately have "filter (same_key cols new) ?t = [r]"
    by (cases "filter (same_key cols new) ?t") auto
  with r(3) show ?thesis by blast
qed


subsection \<open>Normalizing a platform webhook body\<close>

lemma img_srcs_objects: "img_srcs (map JObj os) = Inr (map img_src os)"
  by (induction os) (simp_all add: bindE_def img_src_def)

lemma parse_float_zero: "parse_float ''0'' = Fin 0"
  by (simp add: parse_float_def is_ws_def is_digit_def digits_val_def exponent_factor_def)

lemma parse_float_abc: "parse_float ''abc'' = NaN"
  by (simp add: parse_float_def is_ws_def is_digit_def)

lemma first_variant_price_string:
  assumes "opt_prop (oindex0 (opt_prop (Some raw) ''variants'')) ''price'' = pv"
    and "pv = None \<or> pv = Some (JStr s)"
  shows "first_variant_price e raw = Inr (if truthy pv then parse_float s else Fin 0)"
  using assms
  by (auto simp add: first_variant_price_def parseFloat_def or_default_def parse_float_zero)

text \<open>
  C6, as stated: the price of the product built from a platform body is the parsed price
  of the first variant, and 0 when that price is invalid or absent. The code parses with
  \<open>parseFloat\<close> and defaults only an absent price: a price that is no number gives
  \<open>NaN\<close>.
\<close>

theorem unparseable_price_is_nan:
  "bindE (classify_serve sample_env (hat_webhook ''abc''))
     (\<lambda>b. Inr (opt_prop (oindex0 (opt_prop (Some b) ''products'')) ''price''))
     = Inr (Some (JNum NaN))
   \<and> JNum NaN \<noteq> JNum (Fin 0)"
  by (simp add: classify_serve_def shopify_product_serve_def hat_webhook_def bindE_def
        to_string_call_def opt_prop_def first_variant_price_def parseFloat_def or_default_def
        parse_float_abc map_images_def first_variant_quantity_def field_def sample_env_def)

text \<open>
  C6, amended: for a body that carries \<open>title\<close> and \<open>variants\<close> and a numeric \<open>id\<close>,
  the edge function builds exactly one product. Its \<open>external_id\<close> is the formatted id;
  its price is 0 when the first variant has no price or an empty one, and otherwise
  \<open>parseFloat\<close> of that price string, which is \<open>NaN\<close> when the string does not start
  with a number; its \<open>inventory_count\<close> is the first variant's quantity, 0 when that is
  absent; its images are the \<open>src\<close> of each entry of the image list, none when the list
  is absent; its metadata holds the platform's vendor label (\<open>Unknown\<close> when absent) and
  the handle.
\<close>

theorem platform_product_normalization:
  assumes "js_in ''title'' raw = Inr True" and "js_in ''variants'' raw = Inr True"
    and "opt_prop (Some raw) ''id'' = Some (JNum n)"
    and "opt_prop (oindex0 (opt_prop (Some raw) ''variants'')) ''price'' = pv"
    and "pv = None \<or> pv = Some (JStr s)"
    and "opt_prop (Some raw) ''images'' = imgs"
    and "imgs = None \<and> os = [] \<or> imgs = Some (JArr (map JObj os))"
  shows "\<exists>p. classify_serve e raw = Inr (JObj [(''products'', JArr [p])])
     \<and> opt_prop (Some p) ''external_id'' = Some (JStr (numfmt e (n)))
     \<and> opt_prop (Some p) ''price'' = Some (JNum (if truthy pv then parse_float s else Fin 0))
     \<and> opt_prop (Some p) ''inventory_count'' =
         Some (or_default (opt_prop (oindex0 (opt_prop (Some raw) ''variants'')) ''inventory_quantity'')
                 (JNum (Fin 0)))
     \<and> opt_prop (Some p) ''images'' = Some (JArr (map img_src os))
     \<and> opt_prop (Some p) ''metadata'' =
         Some (JObj ([(''vendor'', or_default (opt_prop (Some raw) ''vendor'') (JStr ''Unknown''))] @
                     field ''shopify_handle'' (opt_prop (Some raw) ''handle'')))"
proof -
  have ext: "to_string_call (numfmt e) (opt_prop (Some raw) ''id'') = Inr (numfmt e n)"
    by (simp add: assms(3) to_string_call_def)
  have price: "first_variant_price e raw = Inr (if truthy pv then parse_float s else Fin 0)"
    by (rule first_variant_price_string [OF assms(4,5)])
  have imgs: "map_images (opt_prop (Some raw) ''images'') = Inr (JArr (map img_src os))"
    using assms(6,7) by (auto simp add: map_images_def img_srcs_objects bindE_def)
  have "classify_serve e raw = bindE (shopify_product_serve e raw) (\<lambda>p. Inr (JObj [(''products'', JArr [p])]))"
    by (simp add: classify_serve_def assms(1,2) bindE_def)
  then show ?thesis
    unfolding shopify_product_serve_def ext price imgs
    by (simp add: bindE_def opt_prop_def first_variant_quantity_def map_of_field_app
          del: map_of_append)
qed


theorem platform_product_normalization_witness:
  "js_in ''title'' (hat_webhook ''19.99'') = Inr True
   \<and> js_in ''variants'' (hat_webhook ''19.99'') = Inr True
   \<and> opt_prop (Some (hat_webhook ''19.99'')) ''id'' = Some (JNum (Fin 632910392))
   \<and> opt_prop (oindex0 (opt_prop (Some (hat_webhook ''19.99'')) ''variants'')) ''price''
       = Some (JStr ''19.99'')
   \<and> opt_prop (Some (hat_webhook ''19.99'')) ''images''
       = Some (JArr (map JObj [[(''src'', JStr ''https://cdn.example/hat.png'')]]))
   \<and> (\<exists>p. classify_serve sample_env (hat_webhook ''19.99'') = Inr (JObj [(''products'', JArr [p])])
        \<and> opt_prop (Some p) ''external_id'' = Some (JStr ''632910392'')
        \<and> opt_prop (Some p) ''price'' = Some (JNum (Fin (1999 / 100)))
        \<and> opt_prop (Some p) ''inventory_count'' = Some (JNum (Fin 3))
        \<and> opt_prop (Some p) ''images'' = Some (JArr [JStr ''https://cdn.example/hat.png''])
        \<and> opt_prop (Some p) ''metadata''
            = Some (JObj [(''vendor'', JStr ''Acme''), (''shopify_handle'', JStr ''hat'')]))"
proof -
  have a: "js_in ''title'' (hat_webhook ''19.99'') = Inr True"
    "js_in ''variants'' (hat_webhook ''19.99'') = Inr True"
    "opt_prop (Some (hat_webhook ''19.99'')) ''id'' = Some (JNum (Fin 632910392))"
    "opt_prop (oindex0 (opt_prop (Some (hat_webhook ''19.99'')) ''variants'')) ''price''
       = Some (JStr ''19.99'')"
    "opt_prop (Some (hat_webhook ''19.99'')) ''images''
       = Some (JArr (map JObj [[(''src'', JStr ''https://cdn.example/hat.png'')]]))"
    by (simp_all add: hat_webhook_def opt_prop_def)
  have q: "opt_prop (oindex0 (opt_prop (Some (hat_webhook ''19.99'')) ''variants''))
             ''inventory_quantity'' = Some (JNum (Fin 3))"
    "opt_prop (Some (hat_webhook ''19.99'')) ''vendor'' = Some (JStr ''Acme'')"
    "opt_prop (Some (hat_webhook ''19.99'')) ''handle'' = Some (JStr ''hat'')"
    by (simp_all add: hat_webhook_def opt_prop_def)
  have pf: "parse_float ''19.99'' = Fin (1999 / 100)"
    by (simp add: parse_float_def is_ws_def is_digit_def digits_val_def exponent_factor_def)
  show ?thesis
    using platform_product_normalization
      [OF a(1) a(2) a(3) a(4) _ a(5), of "''19.99''"
          "[[(''src'', JStr ''https://cdn.example/hat.png'')]]" sample_env] a
    by (simp add: q pf or_default_def field_def img_src_def sample_env_def)
qed

subsection \<open>Two pushes of the same product\<close>

lemma try_product_valid:
  assumes "map_of kvs ''external_id'' = Some x" and "truthy (Some x)"
    and "map_of kvs ''title'' = Some t" and "truthy (Some t)"
    and "store_result e (productData e v (JObj kvs) x t) = Stored"
  shows "\<exists>r. try_product e v (JObj kvs) tbl =
           Inr (Synced r (upsert_rows listing_key (productData e v (JObj kvs) x t) tbl))"
  using assms by (simp add: try_product_def bindE_def Let_def)

lemma process_single_valid:
  assumes "map_of kvs ''external_id'' = Some x" and "truthy (Some x)"
    and "map_of kvs ''title'' = Some t" and "truthy (Some t)"
    and "store_result e (productData e v (JObj kvs) x t) = Stored"
  shows "\<exists>r. process_products e v [JObj kvs] \<lparr>processed = [], errors = [], table = tbl\<rparr> =
           (None, \<lparr>processed = [r], errors = [],
                   table = upsert_rows listing_key (productData e v (JObj kvs) x t) tbl\<rparr>)"
proof -
  from try_product_valid [OF assms, of tbl] obtain r where
    "try_product e v (JObj kvs) tbl =
       Inr (Synced r (upsert_rows listing_key (productData e v (JObj kvs) x t) tbl))" by blast
  then show ?thesis by (simp add: process_product_def)
qed

lemma serve_single_product:
  assumes "authenticated d req keyData"
    and "req_body req = Some (JObj [(''products'', JArr [JObj kvs])])"
    and "map_of kvs ''external_id'' = Some x" and "truthy (Some x)"
    and "map_of kvs ''title'' = Some t" and "truthy (Some t)"
    and "store_result e (productData e (key_vendor keyData) (JObj kvs) x t) = Stored"
  shows "fst (serve e req d) =
           reply 200 (JObj [(''success'', JBool True),
                            (''message'', JStr ''Products received and indexed''),
                            (''processed_count'', jnat 1), (''error_count'', jnat 0)])
       \<and> listings (snd (serve e req d)) =
           upsert_rows listing_key (productData e (key_vendor keyData) (JObj kvs) x t) (listings d)"
proof -
  have l: "listings (touch_key e k d) = listings d" for k
    by (simp add: touch_key_def)
  from process_single_valid [OF assms(3-7), of "listings d"] obtain r where
    "process_products e (key_vendor keyData) [JObj kvs]
        \<lparr>processed = [], errors = [], table = listings d\<rparr> =
      (None, \<lparr>processed = [r], errors = [],
              table = upsert_rows listing_key (productData e (key_vendor keyData) (JObj kvs) x t)
                        (listings d)\<rparr>)" by blast
  then show ?thesis
    unfolding serve_authenticated [OF assms(1,2)]
    by (simp add: classify_plain Let_def l success_body_def logRequest_def
          del: process_products.simps)
qed

lemma same_key_productData:
  assumes "x \<noteq> JNull"
  shows "same_key listing_key (productData e v p x t) r
     \<longleftrightarrow> map_of r ''vendor_id'' = Some (JStr v) \<and> map_of r ''external_id'' = Some x"
  using assms by (auto simp add: same_key_def listing_key_def productData_def)

lemma process_product_table:
  "process_product e v p st = Inr st' \<Longrightarrow>
   table st' = table st \<or> (\<exists>pd. table st' = upsert_rows listing_key pd (table st))"
  by (auto simp add: process_product_def try_product_def bindE_def Let_def
        split: sum.splits item_outcome.splits if_splits option.splits store_result.splits)

lemma process_products_unique:
  "unique_rows listing_key (table st) \<Longrightarrow>
   unique_rows listing_key (table (snd (process_products e v ps st)))"
proof (induction ps arbitrary: st)
  case Nil
  then show ?case by simp
next
  case (Cons p ps)
  show ?case
  proof (cases "process_product e v p st")
    case (Inl ex)
    with Cons.prems show ?thesis by simp
  next
    case (Inr st')
    from process_product_table [OF Inr] Cons.prems have "unique_rows listing_key (table st')"
      by (auto simp add: unique_rows_upsert)
    from Cons.IH [OF this] Inr show ?thesis by simp
  qed
qed

lemma serve_keeps_unique_rows:
  assumes "unique_rows listing_key (listings d)"
  shows "unique_rows listing_key (listings (snd (serve e req d)))"
proof -
  have l: "listings (touch_key e k d) = listings d" for k
    by (simp add: touch_key_def)
  have u: "unique_rows listing_key
             (table (snd (process_products e v items \<lparr>processed = [], errors = [], table = listings d\<rparr>)))"
    for v items
    using process_products_unique [of "\<lparr>processed = [], errors = [], table = listings d\<rparr>" e v items] assms
    by simp
  have t: "unique_rows listing_key (listings (snd (serve_try e req d)))"
    unfolding serve_try_def
    using assms u
    by (auto simp add: Let_def logRequest_def l
          split: option.split sum.split json.split prod.split
          simp del: process_products.simps)
       (metis snd_conv)+
  show ?thesis
    unfolding serve_def using assms t
    by (auto simp add: logRequest_def split: prod.split sum.split)
qed

text \<open>
  C1: two authenticated pushes to the edge function, each of one product with the same
  \<open>external_id\<close> under the same vendor and each accepted by the store, leave exactly one
  listing with that \<open>(vendor_id, external_id)\<close> pair. Every column the second push
  writes has the second push's value, and no two listings of the table share a pair.
  By \<open>serve_keeps_unique_rows\<close> no request to the edge function, whatever it carries,
  makes two listings share a pair.
\<close>

theorem upsert_last_write_wins:
  assumes "unique_rows listing_key (listings d)"
    and "authenticated d reqA keyA"
    and "req_body reqA = Some (JObj [(''products'', JArr [JObj kvsA])])"
    and "map_of kvsA ''external_id'' = Some x" and "truthy (Some x)"
    and "map_of kvsA ''title'' = Some titleA" and "truthy (Some titleA)"
    and "store_result envA (productData envA (key_vendor keyA) (JObj kvsA) x titleA) = Stored"
    and "authenticated (snd (serve envA reqA d)) reqB keyB"
    and "key_vendor keyB = key_vendor keyA"
    and "req_body reqB = Some (JObj [(''products'', JArr [JObj kvsB])])"
    and "map_of kvsB ''external_id'' = Some x"
    and "map_of kvsB ''title'' = Some titleB" and "truthy (Some titleB)"
    and "store_result envB (productData envB (key_vendor keyA) (JObj kvsB) x titleB) = Stored"
  shows "(\<exists>r. filter (\<lambda>r. map_of r ''vendor_id'' = Some (JStr (key_vendor keyA))
                        \<and> map_of r ''external_id'' = Some x)
                (listings (snd (serve envB reqB (snd (serve envA reqA d))))) = [r]
           \<and> (\<forall>c. map_of (productData envB (key_vendor keyA) (JObj kvsB) x titleB) c \<noteq> None \<longrightarrow>
                  map_of r c = map_of (productData envB (key_vendor keyA) (JObj kvsB) x titleB) c))
       \<and> unique_rows listing_key (listings (snd (serve envB reqB (snd (serve envA reqA d)))))"
proof -
  let ?pd1 = "productData envA (key_vendor keyA) (JObj kvsA) x titleA"
  let ?pd2 = "productData envB (key_vendor keyA) (JObj kvsB) x titleB"
  let ?d1 = "snd (serve envA reqA d)"
  from assms(5) have x: "x \<noteq> JNull" by auto
  have l1: "listings ?d1 = upsert_rows listing_key ?pd1 (listings d)"
    using serve_single_product [OF assms(2-8)] by simp
  have l2: "listings (snd (serve envB reqB ?d1)) = upsert_rows listing_key ?pd2 (listings ?d1)"
    using serve_single_product [OF assms(9) assms(11) assms(12) assms(5) assms(13) assms(14)]
      assms(10) assms(15) by simp
  have u1: "unique_rows listing_key (listings ?d1)"
    unfolding l1 by (rule unique_rows_upsert [OF assms(1)])
  have k: "same_key listing_key ?pd2 ?pd2"
    using x by (simp add: same_key_productData) (simp add: productData_def)
  have u2: "unique_rows listing_key (listings (snd (serve envB reqB ?d1)))"
    unfolding l2 by (rule unique_rows_upsert [OF u1])
  from upsert_rows_exactly_one [OF u1 k] u2 show ?thesis
    unfolding l2 using same_key_productData [OF x, of envB "key_vendor keyA" "JObj kvsB" titleB]
    by (simp cong: filter_cong)
qed


lemma api_keys_serve:
  assumes "authenticated d req k" and "req_body req = Some b"
  shows "api_keys (snd (serve e req d)) = api_keys (touch_key e (key_id k) d)"
  unfolding serve_authenticated [OF assms]
  by (simp add: Let_def logRequest_def
        split: sum.split option.split json.split prod.split)

lemma sample_authenticated_again:
  "authenticated (snd (serve sample_env (push_request b) sample_db)) (push_request b') used_key"
proof -
  have "api_keys (snd (serve sample_env (push_request b) sample_db)) = [used_key]"
    using api_keys_serve [OF sample_authenticated, of b b sample_env]
    by (simp add: push_request_def touch_key_def sample_db_def sample_key_def used_key_def
          sample_env_def)
  then show ?thesis
    by (simp add: authenticated_def push_request_def starts_with_def find_api_key_def
          used_key_def sample_key_def)
qed

theorem upsert_last_write_wins_witness:
  "unique_rows listing_key (listings sample_db)
   \<and> authenticated sample_db (push_request (JObj [(''products'', JArr [chair ''first''])])) sample_key
   \<and> authenticated
        (snd (serve sample_env (push_request (JObj [(''products'', JArr [chair ''first''])])) sample_db))
        (push_request (JObj [(''products'', JArr [chair ''second''])])) used_key
   \<and> (\<exists>r. filter (\<lambda>r. map_of r ''vendor_id'' = Some (JStr ''V'')
                        \<and> map_of r ''external_id'' = Some (JStr ''p1''))
             (listings (snd (serve sample_env
                (push_request (JObj [(''products'', JArr [chair ''second''])]))
                (snd (serve sample_env
                   (push_request (JObj [(''products'', JArr [chair ''first''])])) sample_db))))) = [r]
          \<and> map_of r ''description'' = Some (JStr ''second''))"
proof -
  have u: "unique_rows listing_key (listings sample_db)"
    by (simp add: sample_db_def)
  have b: "req_body (push_request x) = Some x" for x
    by (simp add: push_request_def)
  have s: "store_result sample_env x = Stored" for x
    by (simp add: sample_env_def)
  have v: "key_vendor used_key = key_vendor sample_key" "key_vendor sample_key = ''V''"
    by (simp_all add: used_key_def sample_key_def)
  have a2: "authenticated
        (snd (serve sample_env (push_request (JObj [(''products'', JArr [JObj
           [(''external_id'', JStr ''p1''), (''title'', JStr ''Chair''),
            (''description'', JStr ''first'')]])])) sample_db))
        (push_request (JObj [(''products'', JArr [JObj
           [(''external_id'', JStr ''p1''), (''title'', JStr ''Chair''),
            (''description'', JStr ''second'')]])])) used_key"
    by (rule sample_authenticated_again)
  from upsert_last_write_wins [where d = sample_db and keyA = sample_key and keyB = used_key
       and envA = sample_env and envB = sample_env and x = "JStr ''p1''"
       and titleA = "JStr ''Chair''" and titleB = "JStr ''Chair''"
       and kvsA = "[(''external_id'', JStr ''p1''), (''title'', JStr ''Chair''), (''description'', JStr ''first'')]"
       and kvsB = "[(''external_id'', JStr ''p1''), (''title'', JStr ''Chair''), (''description'', JStr ''second'')]",
       OF u sample_authenticated b _ _ _ _ s a2 v(1) b _ _ _ s]
  obtain r where r: "filter (\<lambda>r. map_of r ''vendor_id'' = Some (JStr ''V'')
                        \<and> map_of r ''external_id'' = Some (JStr ''p1''))
             (listings (snd (serve sample_env
                (push_request (JObj [(''products'', JArr [chair ''second''])]))
                (snd (serve sample_env
                   (push_request (JObj [(''products'', JArr [chair ''first''])])) sample_db))))) = [r]"
     "\<forall>c. map_of (productData sample_env ''V'' (chair ''second'') (JStr ''p1'') (JStr ''Chair'')) c \<noteq> None \<longrightarrow>
                  map_of r c = map_of (productData sample_env ''V'' (chair ''second'') (JStr ''p1'') (JStr ''Chair'')) c"
    by (auto simp add: chair_def v)
  from r(2) have "map_of r ''description'' = Some (JStr ''second'')"
    by (simp add: productData_def chair_def opt_prop_def or_default_def)
  with r(1) u sample_authenticated sample_authenticated_again show ?thesis by blast
qed

subsection \<open>Failures of single items in a batch\<close>

lemma process_product_object:
  assumes "\<forall>x. map_of kvs ''external_id'' = Some x \<longrightarrow> js_string (numfmt e) x \<noteq> None"
  shows "\<exists>st'. process_product e v (JObj kvs) st = Inr st'
           \<and> length (processed st') + length (errors st') = Suc (length (processed st) + length (errors st))"
proof (cases "truthy (map_of kvs ''external_id'') \<and> truthy (map_of kvs ''title'')")
  case False
  then show ?thesis
    by (auto simp add: process_product_def try_product_def bindE_def)
next
  case True
  then obtain x t where xt: "map_of kvs ''external_id'' = Some x" "map_of kvs ''title'' = Some t"
    by (cases "map_of kvs ''external_id''"; cases "map_of kvs ''title''") auto
  from assms xt obtain s where s: "js_string (numfmt e) x = Some s" by auto
  show ?thesis
  proof (cases "store_result e (productData e v (JObj kvs) x t)")
    case Stored
    with True xt show ?thesis
      by (simp add: process_product_def try_product_def bindE_def Let_def)
  next
    case (StoreError m)
    with True xt s show ?thesis
      by (simp add: process_product_def try_product_def bindE_def Let_def template_str_def)
  next
    case (StoreThrows m)
    with True xt s show ?thesis
      by (simp add: process_product_def try_product_def bindE_def Let_def template_str_def)
  qed
qed

lemma batch_contained:
  assumes "\<forall>p \<in> set ps. \<exists>kvs. p = JObj kvs
           \<and> (\<forall>x. map_of kvs ''external_id'' = Some x \<longrightarrow> js_string (numfmt e) x \<noteq> None)"
  shows "fst (process_products e v ps st) = None
       \<and> length (processed (snd (process_products e v ps st)))
           + length (errors (snd (process_products e v ps st)))
         = length (processed st) + length (errors st) + length ps"
  using assms
proof (induction ps arbitrary: st)
  case Nil
  then show ?case by simp
next
  case (Cons p ps)
  from Cons.prems obtain kvs where p: "p = JObj kvs"
    "\<forall>x. map_of kvs ''external_id'' = Some x \<longrightarrow> js_string (numfmt e) x \<noteq> None" by auto
  from process_product_object [OF p(2), of v st] obtain st' where
    st': "process_product e v p st = Inr st'"
    "length (processed st') + length (errors st') = Suc (length (processed st) + length (errors st))"
    using p(1) by blast
  from Cons.prems have "\<forall>p \<in> set ps. \<exists>kvs. p = JObj kvs
           \<and> (\<forall>x. map_of kvs ''external_id'' = Some x \<longrightarrow> js_string (numfmt e) x \<noteq> None)" by simp
  from Cons.IH [OF this, of st'] st' show ?case by simp
qed

lemma one_bad_one_good:
  "fst (serve sample_env (push_request (JObj [(''products'', JArr [untitled_item, chair ''ok''])])) sample_db)
     = reply 200
         (JObj [(''success'', JBool True), (''message'', JStr ''Products received and indexed''),
                (''processed_count'', JNum (Fin 1)), (''error_count'', JNum (Fin 1)),
                (''errors'', JArr [JStr ''Product missing required fields: external_id and title are required''])])
   \<and> listings (snd (serve sample_env
         (push_request (JObj [(''products'', JArr [untitled_item, chair ''ok''])])) sample_db))
       = [productData sample_env ''V'' (chair ''ok'') (JStr ''p1'') (JStr ''Chair'')]"
proof -
  have s: "store_result sample_env r = Stored" for r by (simp add: sample_env_def)
  have 1: "process_product sample_env ''V'' untitled_item st
             = Inr (st\<lparr>errors := errors st @ [''Product missing required fields: external_id and title are required'']\<rparr>)" for st
    by (simp add: process_product_def try_product_def bindE_def untitled_item_def)
  have 2: "process_product sample_env ''V'' (chair ''ok'') st
             = Inr (st\<lparr>processed := processed st @
                      [merge_row (productData sample_env ''V'' (chair ''ok'') (JStr ''p1'') (JStr ''Chair''))
                         (case find (same_key listing_key (productData sample_env ''V'' (chair ''ok'') (JStr ''p1'') (JStr ''Chair''))) (table st) of None \<Rightarrow> [] | Some old \<Rightarrow> old)],
                    table := upsert_rows listing_key (productData sample_env ''V'' (chair ''ok'') (JStr ''p1'') (JStr ''Chair'')) (table st)\<rparr>)" for st
    by (simp add: process_product_def try_product_def bindE_def chair_def s Let_def)
  show ?thesis
    using serve_authenticated [OF sample_authenticated, of "JObj [(''products'', JArr [untitled_item, chair ''ok''])]"
       "JObj [(''products'', JArr [untitled_item, chair ''ok''])]" sample_env]
    by (simp add: push_request_def sample_key_def classify_plain Let_def 1 2 logRequest_def touch_key_def sample_db_def success_body_def jnat_def)
qed

lemma process_product_null: "process_product e v JNull st = Inl TypeError"
  by (simp add: process_product_def try_product_def bindE_def)

lemma process_products_null_first:
  "process_products e v (JNull # ps) st = (Some TypeError, st)"
  by (simp add: process_product_null)

text \<open>
  C5: per-item failures are contained and do not abort sibling items. The lemmas above
  show this for items that are objects, and for the batch of one untitled and one valid
  item. An item that is \<open>null\<close> is not contained: reading its \<open>external_id\<close> throws
  inside the \<open>try\<close>, the \<open>catch\<close> reads it again to format the message and throws
  itself, and the request ends with 500 before the valid sibling is written.
\<close>

theorem null_item_aborts_batch:
  "fst (serve sample_env (push_request (JObj [(''products'', JArr [JNull, chair ''ok''])])) sample_db)
     = reply 500
         (JObj [(''success'', JBool False), (''error'', JStr ''Internal server error''),
                (''message'', JStr ''An unexpected error occurred while processing your request'')])
   \<and> listings (snd (serve sample_env
         (push_request (JObj [(''products'', JArr [JNull, chair ''ok''])])) sample_db)) = []"
  using serve_authenticated [OF sample_authenticated, of "JObj [(''products'', JArr [JNull, chair ''ok''])]"
       "JObj [(''products'', JArr [JNull, chair ''ok''])]" sample_env]
  by (simp add: push_request_def classify_plain Let_def process_products_null_first logRequest_def touch_key_def sample_db_def sample_key_def
        del: process_products.simps)


subsection \<open>Resolving the vendor\<close>

lemma bearer_token_header:
  "authorization ev = None \<Longrightarrow> bearer_token ev = []"
  "authorization ev = Some (''Bearer '' @ t) \<Longrightarrow> bearer_token ev = trim t"
  by (simp_all add: bearer_token_def starts_with_def trim_def)

lemma api_key_handler_rejects:
  assumes "httpMethod ev = ''POST''"
    and "\<forall>r. find_api_key d (bearer_token ev) \<noteq> Inr (Some r)"
  shows "api_key_handler e ev d = (Inr (reply 401 (error_body ''Invalid API key'')), d)"
  using assms
  by (auto simp add: api_key_handler_def split: sum.split option.split)

lemma maybe_single_cases:
  "(case maybe_single rows of Inr (Some r) \<Rightarrow> Vendor (f r) | _ \<Rightarrow> Reject (reply 401 (error_body msg)))
     = single_vendor rows f msg"
  by (cases rows rule: maybe_single.cases) (simp_all add: single_vendor_def)

text \<open>
  C2: resolution in the handler with the shop-domain fallback. A non-empty token makes one
  query for an active key with exactly that value, and anything but one row is rejected
  with 401 \<open>Invalid API key\<close>; the body is not read. With no token and a body that
  parses, a truthy \<open>vendor\<close> of the body is looked up as \<open>store_name\<close>, whether or not
  a shop domain is present; without it a non-empty shop-domain header is looked up as
  \<open>shop_url\<close>; a lookup that does not give one row is rejected with 401
  \<open>Store not mapped to vendor\<close>; with neither field the request is rejected with 401
  \<open>No vendor/store identifier found\<close> and no query is made. No resolution makes more
  than one query.
\<close>

theorem vendor_resolution_precedence:
  "(bearer_token ev \<noteq> [] \<longrightarrow>
      resolve_vendor e d ev =
        ([KeyLookup (bearer_token ev)],
         single_vendor (filter (\<lambda>r. api_key r = bearer_token ev \<and> is_active r) (api_keys d))
           key_vendor ''Invalid API key''))
   \<and> (bearer_token ev = [] \<and> ev_json ev = Some b \<and> truthy (opt_prop (Some b) ''vendor'')
        \<and> template_str (numfmt e) (opt_prop (Some b) ''vendor'') = Inr name \<longrightarrow>
      resolve_vendor e d ev =
        ([MappingLookup ''store_name'' name],
         single_vendor (filter (\<lambda>r. store_name r = name) (store_mappings d))
           map_vendor ''Store not mapped to vendor''))
   \<and> (bearer_token ev = [] \<and> ev_json ev = Some b \<and> \<not> truthy (opt_prop (Some b) ''vendor'')
        \<and> shop_domain ev = Some domain \<and> domain \<noteq> [] \<longrightarrow>
      resolve_vendor e d ev =
        ([MappingLookup ''shop_url'' domain],
         single_vendor (filter (\<lambda>r. shop_url r = domain) (store_mappings d))
           map_vendor ''Store not mapped to vendor''))
   \<and> (bearer_token ev = [] \<and> ev_json ev = Some b \<and> \<not> truthy (opt_prop (Some b) ''vendor'')
        \<and> (shop_domain ev = None \<or> shop_domain ev = Some []) \<longrightarrow>
      resolve_vendor e d ev =
        ([], Reject (reply 401 (error_body ''No vendor/store identifier found''))))
   \<and> length (fst (resolve_vendor e d ev)) \<le> 1"
proof -
  have key: "resolve_vendor e d ev =
        ([KeyLookup (bearer_token ev)],
         single_vendor (filter (\<lambda>r. api_key r = bearer_token ev \<and> is_active r) (api_keys d))
           key_vendor ''Invalid API key'')" if "bearer_token ev \<noteq> []"
    using that by (simp add: resolve_vendor_def Let_def find_api_key_def maybe_single_cases)
  have name: "resolve_vendor e d ev =
        ([MappingLookup ''store_name'' name],
         single_vendor (filter (\<lambda>r. store_name r = name) (store_mappings d))
           map_vendor ''Store not mapped to vendor'')"
    if "bearer_token ev = []" "ev_json ev = Some b" "truthy (opt_prop (Some b) ''vendor'')"
       "template_str (numfmt e) (opt_prop (Some b) ''vendor'') = Inr name"
    using that
    by (simp add: resolve_vendor_def Let_def js_or_def find_mapping_def mapping_column_def
          maybe_single_cases)
  have dom: "resolve_vendor e d ev =
        ([MappingLookup ''shop_url'' domain],
         single_vendor (filter (\<lambda>r. shop_url r = domain) (store_mappings d))
           map_vendor ''Store not mapped to vendor'')"
    if "bearer_token ev = []" "ev_json ev = Some b" "\<not> truthy (opt_prop (Some b) ''vendor'')"
       "shop_domain ev = Some domain" "domain \<noteq> []"
    using that
    by (simp add: resolve_vendor_def Let_def js_or_def find_mapping_def mapping_column_def
          maybe_single_cases template_str_def)
  have none: "resolve_vendor e d ev =
        ([], Reject (reply 401 (error_body ''No vendor/store identifier found'')))"
    if "bearer_token ev = []" "ev_json ev = Some b" "\<not> truthy (opt_prop (Some b) ''vendor'')"
       "shop_domain ev = None \<or> shop_domain ev = Some []"
    using that by (auto simp add: resolve_vendor_def Let_def js_or_def)
  have once: "length (fst (resolve_vendor e d ev)) \<le> 1"
    by (simp add: resolve_vendor_def Let_def split: option.split sum.split)
  from key name dom none once show ?thesis by blast
qed


theorem vendor_resolution_precedence_witness:
  "bearer_token (push_event (JObj [(''vendor'', JStr ''Acme'')])) \<noteq> []
   \<and> resolve_vendor sample_env sample_db (push_event (JObj [(''vendor'', JStr ''Acme'')]))
       = ([KeyLookup ''sk_live_1''], Vendor ''V'')
   \<and> bearer_token (webhook_event (Some ''other.myshopify.com'') (JObj [(''vendor'', JStr ''Acme'')])) = []
   \<and> resolve_vendor sample_env sample_db
         (webhook_event (Some ''other.myshopify.com'') (JObj [(''vendor'', JStr ''Acme'')]))
       = ([MappingLookup ''store_name'' ''Acme''], Vendor ''V2'')
   \<and> resolve_vendor sample_env sample_db (webhook_event (Some ''acme.myshopify.com'') (JObj []))
       = ([MappingLookup ''shop_url'' ''acme.myshopify.com''], Vendor ''V2'')
   \<and> resolve_vendor sample_env sample_db (webhook_event (Some ''nobody.myshopify.com'') (JObj []))
       = ([MappingLookup ''shop_url'' ''nobody.myshopify.com''],
          Reject (reply 401 (error_body ''Store not mapped to vendor'')))
   \<and> resolve_vendor sample_env sample_db (webhook_event None (JObj []))
       = ([], Reject (reply 401 (error_body ''No vendor/store identifier found'')))"
proof -
  have t: "bearer_token (webhook_event dm b) = []" for dm b
    by (simp add: bearer_token_def webhook_event_def trim_def)
  have j: "ev_json (webhook_event dm b) = Some b" "shop_domain (webhook_event dm b) = dm" for dm b
    by (simp_all add: webhook_event_def)
  show ?thesis
    using vendor_resolution_precedence
        [of "push_event (JObj [(''vendor'', JStr ''Acme'')])" sample_env sample_db]
      vendor_resolution_precedence
        [of "webhook_event (Some ''other.myshopify.com'') (JObj [(''vendor'', JStr ''Acme'')])"
            sample_env sample_db "JObj [(''vendor'', JStr ''Acme'')]" "''Acme''"]
      vendor_resolution_precedence
        [of "webhook_event (Some ''acme.myshopify.com'') (JObj [])" sample_env sample_db
            "JObj []" _ "''acme.myshopify.com''"]
      vendor_resolution_precedence
        [of "webhook_event (Some ''nobody.myshopify.com'') (JObj [])" sample_env sample_db
            "JObj []" _ "''nobody.myshopify.com''"]
      vendor_resolution_precedence
        [of "webhook_event None (JObj [])" sample_env sample_db "JObj []"]
    by (simp add: t j sample_token opt_prop_def template_str_def single_vendor_def sample_db_def)
qed

subsection \<open>The external id of a conversational listing\<close>


















end
